theory Spec2Isabelle
  imports Main
begin

section \<open>Python values used throughout\<close>

text \<open>
  Python strings are modelled as \<^typ>\<open>string\<close>; a \<^typ>\<open>char\<close> stands for one code point
  below 256. Exceptions are values of \<open>error\<close>; a function that may raise returns
  \<open>error + 'a\<close> with \<open>Inl\<close> for the exception.
\<close>

datatype error =
    ValueError | KeyError | AttributeError | LoaderError | StoreError
  | IsADirectoryError | FileNotFoundError | NotADirectoryError | PermissionError

abbreviation NL :: char where
  "NL \<equiv> CHR 0x0A"

abbreviation CR :: char where
  "CR \<equiv> CHR 0x0D"

text \<open>The line boundaries of \<open>str.splitlines\<close> that fit in one \<^typ>\<open>char\<close>.\<close>

definition is_linebreak :: "char \<Rightarrow> bool" where
  "is_linebreak c \<longleftrightarrow>
     c = NL \<or> c = CR \<or> c = CHR 0x0B \<or> c = CHR 0x0C \<or>
     c = CHR 0x1C \<or> c = CHR 0x1D \<or> c = CHR 0x1E \<or> c = CHR 0x85"

text \<open>
  \<open>str.splitlines()\<close>: the text is cut at every line boundary (\<open>\r\n\<close> counts once), the
  boundaries are dropped, and a final line is produced only when it is not empty.
  \<open>cur\<close> is the line read so far.
\<close>

fun splitlines_from :: "string \<Rightarrow> string \<Rightarrow> string list" where
  "splitlines_from cur [] = (if cur = [] then [] else [cur])"
| "splitlines_from cur [c] = (if is_linebreak c then [cur] else [cur @ [c]])"
| "splitlines_from cur (c # d # cs) =
     (if c = CR \<and> d = NL then cur # splitlines_from [] cs
      else if is_linebreak c then cur # splitlines_from [] (d # cs)
      else splitlines_from (cur @ [c]) (d # cs))"

definition splitlines :: "string \<Rightarrow> string list" where
  "splitlines s = splitlines_from [] s"

text \<open>\<open>sep.join(xs)\<close>\<close>

fun str_join :: "string \<Rightarrow> string list \<Rightarrow> string" where
  "str_join sep [] = []"
| "str_join sep [x] = x"
| "str_join sep (x # y # ys) = x @ sep @ str_join sep (y # ys)"


section \<open>Document Registry (\<open>src/src/loaders/document_loader.py\<close>)\<close>

text \<open>
  The registry lives on disk: \<open>PROCESSED_DOCS_RECORD\<close> is a text file (\<open>None\<close> when it does
  not exist) and \<open>Config.DOCUMENTS_DIR\<close> a flat directory, a map from file name to file
  content.
\<close>

record filesystem =
  processed_docs_record :: "string option"
  documents_dir :: "string \<rightharpoonup> string"

text \<open>\<open>DocumentLoaderService._is_document_processed\<close>\<close>

definition is_document_processed :: "filesystem \<Rightarrow> string \<Rightarrow> bool" where
  "is_document_processed fs doc_id =
     (case processed_docs_record fs of
        None \<Rightarrow> False
      | Some text \<Rightarrow> doc_id \<in> set (splitlines text))"

text \<open>
  \<open>DocumentLoaderService._record_processed_document\<close>: the file is opened in append mode
  (created when missing) and \<open>f"{doc_id}\n"\<close> is written at its end.
\<close>

definition record_processed_document :: "string \<Rightarrow> filesystem \<Rightarrow> filesystem" where
  "record_processed_document doc_id fs =
     fs\<lparr>processed_docs_record :=
          Some ((case processed_docs_record fs of None \<Rightarrow> [] | Some text \<Rightarrow> text)
                @ doc_id @ [NL])\<rparr>"

text \<open>\<open>DocumentLoaderService.list_all_processed_documents\<close>\<close>

definition list_all_processed_documents :: "filesystem \<Rightarrow> string list" where
  "list_all_processed_documents fs =
     (case processed_docs_record fs of
        None \<Rightarrow> []
      | Some text \<Rightarrow> splitlines text)"

text \<open>
  \<open>DocumentLoaderService.delete_processed_document\<close>: the saved copy is unlinked when it
  exists, the first occurrence of \<open>doc_id\<close> is removed from the list that was read
  (\<open>list.remove\<close>), and the file is rewritten with \<open>"\n".join(processed_ids)\<close>.
\<close>

definition delete_processed_document :: "string \<Rightarrow> filesystem \<Rightarrow> filesystem" where
  "delete_processed_document doc_id fs =
     (let docs = (if documents_dir fs doc_id \<noteq> None
                  then (documents_dir fs)(doc_id := None)
                  else documents_dir fs);
          processed_ids = list_all_processed_documents fs;
          processed_ids' = (if doc_id \<in> set processed_ids
                            then remove1 doc_id processed_ids
                            else processed_ids)
      in \<lparr>processed_docs_record = Some (str_join [NL] processed_ids'),
          documents_dir = docs\<rparr>)"

text \<open>
  A record as appends alone leave it: missing, empty, or ending in a newline.
\<close>

definition newline_terminated :: "filesystem \<Rightarrow> bool" where
  "newline_terminated fs \<longleftrightarrow>
     (case processed_docs_record fs of
        None \<Rightarrow> True
      | Some text \<Rightarrow> text = [] \<or> last text = NL)"

text \<open>A disk on which nothing has been recorded or saved yet.\<close>

definition empty_fs :: filesystem where
  "empty_fs = \<lparr>processed_docs_record = None, documents_dir = Map.empty\<rparr>"


section \<open>Ingestion (\<open>DocumentLoaderService.load_document\<close>, \<open>_process_file\<close>)\<close>

text \<open>
  A LangChain \<open>Document\<close>: its text and its metadata dictionary. A dictionary whose
  content is compared or printed is an association list with one entry per key.
\<close>

record document =
  page_content :: string
  metadata :: "(string \<times> string) list"

fun dict_set :: "'k \<Rightarrow> 'v \<Rightarrow> ('k \<times> 'v) list \<Rightarrow> ('k \<times> 'v) list" where
  "dict_set k v [] = [(k, v)]"
| "dict_set k v ((k', v') # kvs) =
     (if k' = k then (k, v) # kvs else (k', v') # dict_set k v kvs)"

text \<open>\<open>d.update(new)\<close>\<close>

fun dict_update :: "('k \<times> 'v) list \<Rightarrow> ('k \<times> 'v) list \<Rightarrow> ('k \<times> 'v) list" where
  "dict_update [] d = d"
| "dict_update ((k, v) # new) d = dict_update new (dict_set k v d)"

text \<open>\<open>d.get(k, dflt)\<close>\<close>

definition dict_get :: "('k \<times> 'v) list \<Rightarrow> 'k \<Rightarrow> 'v \<Rightarrow> 'v" where
  "dict_get d k dflt = (case map_of d k of None \<Rightarrow> dflt | Some v \<Rightarrow> v)"

text \<open>The file handed over by the upload widget: \<open>.name\<close> and \<open>.getbuffer()\<close>.\<close>

record uploaded_file =
  name :: string
  getbuffer :: string

text \<open>\<open>str.rfind(c)\<close>: the last position of \<open>c\<close>, \<open>None\<close> for Python's \<open>-1\<close>.\<close>

fun rfind :: "char \<Rightarrow> string \<Rightarrow> nat option" where
  "rfind c [] = None"
| "rfind c (x # xs) =
     (case rfind c xs of
        Some i \<Rightarrow> Some (Suc i)
      | None \<Rightarrow> if x = c then Some 0 else None)"

text \<open>
  \<open>pathlib.PurePath.suffix\<close> of a file name: the part from the last dot on, unless that
  dot is the first or the last character (\<open>0 < i < len(name) - 1\<close>).
\<close>

definition suffix :: "string \<Rightarrow> string" where
  "suffix nm =
     (case rfind CHR ''.'' nm of
        None \<Rightarrow> []
      | Some i \<Rightarrow> if 0 < i \<and> Suc i < length nm then drop i nm else [])"

text \<open>\<open>str.lower()\<close> on code points below 256.\<close>

definition lower_char :: "char \<Rightarrow> char" where
  "lower_char c =
     (let n = (of_char c :: nat)
      in if (65 \<le> n \<and> n \<le> 90) \<or> (192 \<le> n \<and> n \<le> 222 \<and> n \<noteq> 215)
         then char_of (n + 32) else c)"

definition lower :: "string \<Rightarrow> string" where
  "lower s = map lower_char s"

datatype loader_class = PyPDFLoader | Docx2txtLoader | TextLoader

text \<open>\<open>DocumentLoaderService.SUPPORTED_LOADERS\<close>\<close>

definition SUPPORTED_LOADERS :: "(string \<times> loader_class) list" where
  "SUPPORTED_LOADERS =
     [(''.pdf'', PyPDFLoader),
      (''.docx'', Docx2txtLoader),
      (''.doc'', Docx2txtLoader),
      (''.txt'', TextLoader),
      (''.html'', TextLoader),
      (''.htm'', TextLoader),
      (''.md'', TextLoader)]"

subsection \<open>Paths\<close>

text \<open>\<open>str.split(sep)\<close> for a separator of one character; \<open>cur\<close> is the piece read so far.\<close>

fun split_at :: "char \<Rightarrow> string \<Rightarrow> string \<Rightarrow> string list" where
  "split_at sep cur [] = [cur]"
| "split_at sep cur (c # cs) =
     (if c = sep then cur # split_at sep [] cs else split_at sep (cur @ [c]) cs)"

text \<open>
  A \<open>pathlib\<close> path on POSIX: whether it starts at the root, and its components.
  Parsing a string drops the empty components and the components \<open>.\<close> (so a final
  separator does not count), and keeps \<open>..\<close>.
\<close>

record path =
  anchored :: bool
  components :: "string list"

definition path_parts :: "string \<Rightarrow> string list" where
  "path_parts s = filter (\<lambda>c. c \<noteq> [] \<and> c \<noteq> ''.'') (split_at CHR ''/'' [] s)"

definition is_absolute :: "string \<Rightarrow> bool" where
  "is_absolute s = (case s of [] \<Rightarrow> False | c # cs \<Rightarrow> c = CHR ''/'')"

text \<open>\<open>Path(s)\<close>\<close>

definition Path :: "string \<Rightarrow> path" where
  "Path s = \<lparr>anchored = is_absolute s, components = path_parts s\<rparr>"

text \<open>\<open>p / s\<close>: an absolute \<open>s\<close> replaces \<open>p\<close>, any other is appended to it.\<close>

definition joinpath :: "path \<Rightarrow> string \<Rightarrow> path" where
  "joinpath p s =
     (if is_absolute s then Path s
      else p\<lparr>components := components p @ path_parts s\<rparr>)"

text \<open>\<open>p.name\<close>: the last component, the empty string when there is none.\<close>

definition path_name :: "path \<Rightarrow> string" where
  "path_name p = (case components p of [] \<Rightarrow> [] | c # cs \<Rightarrow> last (c # cs))"

text \<open>\<open>str(p)\<close>\<close>

definition path_str :: "path \<Rightarrow> string" where
  "path_str p =
     (if components p = [] then (if anchored p then ''/'' else ''.'')
      else (if anchored p then ''/'' else []) @ str_join ''/'' (components p))"

text \<open>
  Where \<open>Config.DOCUMENTS_DIR / nm\<close> points, seen from the documents directory, which
  exists (\<open>mkdir\<close> runs just before) and holds regular files only: at a directory (the
  documents directory itself or one above it, when no component or only \<open>..\<close> is
  left), at a file name inside the directory, below a first component that cannot be a
  directory, or out of the directory (an absolute name, or one that starts with \<open>..\<close>).
\<close>

datatype target = A_directory | In_directory string | Below string | Outside

definition resolve :: "string \<Rightarrow> target" where
  "resolve nm =
     (if list_all (\<lambda>c. c = ''..'') (path_parts nm) then A_directory
      else if is_absolute nm then Outside
      else (case path_parts nm of
              [] \<Rightarrow> A_directory
            | c # cs \<Rightarrow>
                if cs = [] then In_directory c
                else if c = ''..'' then Outside
                else Below c))"

subsection \<open>Loading and processing\<close>

text \<open>
  \<open>DocumentLoaderService.load_document\<close>. Its first line turns the string it is given
  into a \<open>Path\<close>; here it takes that path, and \<open>content\<close>, what the disk holds there
  (\<open>None\<close> for no file). The format parsers and the text splitter are external:
  \<open>run_loader cls text\<close> stands for \<open>loader_class(str(path)).load()\<close> on a file with that
  text (it may raise), and \<open>split_documents\<close> for \<open>self.text_splitter.split_documents\<close>.
\<close>

definition load_document ::
  "(loader_class \<Rightarrow> string \<Rightarrow> error + document list) \<Rightarrow> (document list \<Rightarrow> document list) \<Rightarrow>
   path \<Rightarrow> string option \<Rightarrow> error + document list" where
  "load_document run_loader split_documents file_path content =
     (let sfx = lower (suffix (path_name file_path))
      in case map_of SUPPORTED_LOADERS sfx of
           None \<Rightarrow> Inl ValueError
         | Some loader_cls \<Rightarrow>
             (case content of
                None \<Rightarrow> Inl LoaderError
              | Some written \<Rightarrow>
                  (case run_loader loader_cls written of
                     Inl e \<Rightarrow> Inl e
                   | Inr documents \<Rightarrow>
                       Inr (split_documents
                             (map (\<lambda>doc. doc\<lparr>metadata :=
                                     dict_update
                                       [(''source'', path_str file_path),
                                        (''file_name'', path_name file_path),
                                        (''file_type'', sfx)]
                                       (metadata doc)\<rparr>)
                                  documents)))))"

text \<open>
  \<open>with open(file_path1, "wb") as f: f.write(file_path.getbuffer())\<close>, which stands
  outside the \<open>try\<close> of \<open>_process_file\<close>. \<open>open\<close> refuses a name with a NUL character, a
  directory, and a file below something that is not a directory. Where the path can
  name a file, the operating system may still refuse (permissions, a full disk):
  \<open>os_open\<close> is its answer for a path, \<open>None\<close> for success. A file written inside the
  documents directory is kept under its name; what is written elsewhere is not part
  of this state.
\<close>

definition write_upload ::
  "(path \<Rightarrow> error option) \<Rightarrow> path \<Rightarrow> string \<Rightarrow> string \<Rightarrow> filesystem \<Rightarrow> error + filesystem" where
  "write_upload os_open documents_path nm buffer fs =
     (if CHR 0x00 \<in> set nm then Inl ValueError
      else
        (case resolve nm of
           A_directory \<Rightarrow> Inl IsADirectoryError
         | Below c \<Rightarrow>
             Inl (if documents_dir fs c = None then FileNotFoundError else NotADirectoryError)
         | In_directory c \<Rightarrow>
             (case os_open (joinpath documents_path nm) of
                Some e \<Rightarrow> Inl e
              | None \<Rightarrow> Inr (fs\<lparr>documents_dir := (documents_dir fs)(c \<mapsto> buffer)\<rparr>))
         | Outside \<Rightarrow>
             (case os_open (joinpath documents_path nm) of
                Some e \<Rightarrow> Inl e
              | None \<Rightarrow> Inr fs)))"

text \<open>
  \<open>DocumentLoaderService._process_file\<close>; \<open>documents_path\<close> is \<open>Config.DOCUMENTS_DIR\<close>.
  \<open>file_path.name\<close> is read first, so a missing upload raises \<open>AttributeError\<close> there.
  An exception of the write leaves the method. Any exception of \<open>load_document\<close> is
  caught, logged, and answered with the empty list. The result is the returned value
  (or the exception raised) and the disk afterwards.
\<close>

definition process_file ::
  "(loader_class \<Rightarrow> string \<Rightarrow> error + document list) \<Rightarrow> (document list \<Rightarrow> document list) \<Rightarrow>
   (path \<Rightarrow> error option) \<Rightarrow> path \<Rightarrow> uploaded_file option \<Rightarrow> bool \<Rightarrow> filesystem \<Rightarrow>
   (error + document list) \<times> filesystem" where
  "process_file run_loader split_documents os_open documents_path file_path skip_processed fs =
     (case file_path of
        None \<Rightarrow> (Inl AttributeError, fs)
      | Some f \<Rightarrow>
          (let doc_id = name f
           in if skip_processed \<and> is_document_processed fs doc_id then (Inr [], fs)
              else
                (let file_path1 = joinpath documents_path (name f)
                 in case write_upload os_open documents_path (name f) (getbuffer f) fs of
                      Inl e \<Rightarrow> (Inl e, fs)
                    | Inr fs1 \<Rightarrow>
                        (case load_document run_loader split_documents file_path1
                                (Some (getbuffer f)) of
                           Inr chunks \<Rightarrow> (Inr chunks, record_processed_document doc_id fs1)
                         | Inl e \<Rightarrow> (Inr [], fs1)))))"


section \<open>Vector Index Manager (\<open>src/src/vectorstores/faiss_store.py\<close>)\<close>

subsection \<open>The LangChain \<open>FAISS\<close> object\<close>

text \<open>
  \<open>FAISSVectorStore\<close> holds one \<open>langchain_community.vectorstores.FAISS\<close> object and
  reads and writes three of its attributes directly: \<open>index\<close> (the flat FAISS index, the
  vectors in position order), \<open>docstore\<close> (an \<open>InMemoryDocstore\<close>, a dictionary from id
  to \<open>Document\<close>) and \<open>index_to_docstore_id\<close> (a dictionary from position to id). The
  library only ever builds that dictionary with the keys \<open>0 .. n-1\<close>, so it is the list
  of its values in key order. The embedding model is a function \<open>emb\<close> from text to
  vector; vectors are an abstract type \<open>'v\<close>.
\<close>

record 'v faiss =
  index :: "'v list"
  docstore :: "string \<rightharpoonup> document"
  index_to_docstore_id :: "string list"

definition empty_faiss :: "'v faiss" where
  "empty_faiss = \<lparr>index = [], docstore = Map.empty, index_to_docstore_id = []\<rparr>"

text \<open>
  \<open>InMemoryDocstore.add\<close>: refuses ids that are already stored, otherwise merges the new
  dictionary (built by a comprehension, so a later pair wins) into the old one.
\<close>

definition docstore_add ::
  "(string \<times> document) list \<Rightarrow> (string \<rightharpoonup> document) \<Rightarrow> error + (string \<rightharpoonup> document)" where
  "docstore_add texts d =
     (if (\<exists>k \<in> set (map fst texts). d k \<noteq> None) then Inl ValueError
      else Inr (d ++ map_of (rev texts)))"

text \<open>
  \<open>FAISS.add_documents(documents, ids)\<close> with a non-empty \<open>ids\<close>: the length check and the
  duplicate check come first, then the vectors are appended to the index, then the
  docstore is extended (which may still refuse), then the id dictionary. The result is
  the exception raised, if any, and the object as the call leaves it.
\<close>

definition faiss_add_documents ::
  "(string \<Rightarrow> 'v) \<Rightarrow> document list \<Rightarrow> string list \<Rightarrow> 'v faiss \<Rightarrow> error option \<times> 'v faiss" where
  "faiss_add_documents emb documents ids vs =
     (if length documents \<noteq> length ids then (Some ValueError, vs)
      else if \<not> distinct ids then (Some ValueError, vs)
      else
        (let vs1 = vs\<lparr>index := index vs @ map (\<lambda>doc. emb (page_content doc)) documents\<rparr>
         in case docstore_add (zip ids documents) (docstore vs) of
              Inl e \<Rightarrow> (Some e, vs1)
            | Inr d \<Rightarrow>
                (None, vs1\<lparr>docstore := d,
                           index_to_docstore_id := index_to_docstore_id vs @ ids\<rparr>)))"

text \<open>
  \<open>FAISS.from_texts(texts, embeddings)\<close>: a new object filled by the same insertion; the
  ids are the \<open>uuid4\<close> values the library draws, one per text. With distinct draws no
  check of the insertion can fail on an empty object.
\<close>

definition FAISS_from_texts :: "(string \<Rightarrow> 'v) \<Rightarrow> string list \<Rightarrow> string list \<Rightarrow> 'v faiss" where
  "FAISS_from_texts emb texts ids =
     snd (faiss_add_documents emb
            (map (\<lambda>t. \<lparr>page_content = t, metadata = []\<rparr>) texts) ids empty_faiss)"

text \<open>\<open>index.remove_ids\<close> on a flat index: the given positions are dropped, the rest close up.\<close>

definition remove_ids :: "nat list \<Rightarrow> 'a list \<Rightarrow> 'a list" where
  "remove_ids dels xs = map snd (filter (\<lambda>p. fst p \<notin> set dels) (enumerate 0 xs))"

text \<open>
  \<open>reversed_index = {id_: idx for idx, id_ in self.index_to_docstore_id.items()}\<close>: for
  an id stored at several positions, the last position wins.
\<close>

definition reversed_index :: "string list \<Rightarrow> string \<rightharpoonup> nat" where
  "reversed_index ids = map_of (rev (map (\<lambda>p. (snd p, fst p)) (enumerate 0 ids)))"

text \<open>
  \<open>InMemoryDocstore.delete\<close>: raises when none of the ids is stored; otherwise pops them
  one by one, and a pop of an id that is not (or no longer) stored raises \<open>KeyError\<close>
  with the earlier pops done.
\<close>

fun docstore_pop_all :: "string list \<Rightarrow> (string \<rightharpoonup> document) \<Rightarrow> error option \<times> (string \<rightharpoonup> document)" where
  "docstore_pop_all [] d = (None, d)"
| "docstore_pop_all (i # ids) d =
     (if d i = None then (Some KeyError, d) else docstore_pop_all ids (d(i := None)))"

definition docstore_delete ::
  "string list \<Rightarrow> (string \<rightharpoonup> document) \<Rightarrow> error option \<times> (string \<rightharpoonup> document)" where
  "docstore_delete ids d =
     (if \<not> (\<exists>i \<in> set ids. d i \<noteq> None) then (Some ValueError, d)
      else docstore_pop_all ids d)"

text \<open>
  \<open>FAISS.delete(ids)\<close>: raises before any change when some id is not in the id
  dictionary; then removes the positions from the index, deletes from the docstore, and
  renumbers the remaining ids in position order.
\<close>

definition faiss_delete :: "string list \<Rightarrow> 'v faiss \<Rightarrow> error option \<times> 'v faiss" where
  "faiss_delete ids vs =
     (if \<not> set ids \<subseteq> set (index_to_docstore_id vs) then (Some ValueError, vs)
      else
        (let index_to_delete = List.map_filter (reversed_index (index_to_docstore_id vs)) ids;
             vs1 = vs\<lparr>index := remove_ids index_to_delete (index vs)\<rparr>
         in case docstore_delete ids (docstore vs) of
              (Some e, d) \<Rightarrow> (Some e, vs1\<lparr>docstore := d\<rparr>)
            | (None, d) \<Rightarrow>
                (None, vs1\<lparr>docstore := d,
                           index_to_docstore_id :=
                             remove_ids index_to_delete (index_to_docstore_id vs)\<rparr>)))"

subsection \<open>\<open>FAISSVectorStore\<close>\<close>

text \<open>
  The directory \<open>FAISS_INDEX_PATH\<close>: empty, holding files that \<open>FAISS.load_local\<close>
  cannot read, or holding the object that \<open>save_local\<close> wrote last.
\<close>

datatype 'v disk_index = Absent | Unreadable | Stored "'v faiss"

text \<open>
  The state the methods work on: \<open>self.vector_store\<close>, the index directory, and the
  number of \<open>uuid.uuid4()\<close> values drawn so far (the \<open>k\<close>-th draw is \<open>uuid4 k\<close>, for a
  function \<open>uuid4\<close> given from outside). \<open>__init__\<close> always assigns \<open>self.vector_store\<close>
  from \<open>_load_or_create_vector_store\<close>, which returns an object on every path.
\<close>

record 'v store_state =
  vector_store :: "'v faiss"
  FAISS_INDEX_PATH :: "'v disk_index"
  uuid_count :: nat

text \<open>
  The text of the placeholder document: in the source a literal of five CJK characters
  meaning "initialisation document", here their UTF-8 bytes.
\<close>

definition init_text :: string where
  "init_text = map char_of
     [0xE5, 0x88, 0x9D, 0xE5, 0xA7, 0x8B, 0xE5, 0x8C, 0x96, 0xE6, 0x96, 0x87, 0xE6, 0xA1, 0xA3 :: nat]"

text \<open>\<open>FAISSVectorStore._load_or_create_vector_store\<close>\<close>

definition load_or_create_vector_store ::
  "(string \<Rightarrow> 'v) \<Rightarrow> (nat \<Rightarrow> string) \<Rightarrow> 'v disk_index \<Rightarrow> nat \<Rightarrow> 'v store_state" where
  "load_or_create_vector_store emb uuid4 disk n =
     (case disk of
        Stored vs \<Rightarrow> \<lparr>vector_store = vs, FAISS_INDEX_PATH = disk, uuid_count = n\<rparr>
      | _ \<Rightarrow>
          (let vs = FAISS_from_texts emb [init_text] [uuid4 n]
           in \<lparr>vector_store = vs, FAISS_INDEX_PATH = Stored vs, uuid_count = Suc n\<rparr>))"

text \<open>\<open>self.vector_store.save_local(str(FAISS_INDEX_PATH))\<close>, also \<open>FAISSVectorStore.save\<close>\<close>

definition save :: "'v store_state \<Rightarrow> 'v store_state" where
  "save s = s\<lparr>FAISS_INDEX_PATH := Stored (vector_store s)\<rparr>"

text \<open>
  \<open>DocumentLoaderService.batch_process_documents\<close>, and the slicing of \<open>ids\<close> beside it:
  consecutive slices of \<open>batch_size\<close> elements. (\<open>range\<close> with step 0 raises; the caller
  below checks that before.)
\<close>

function batch_process_documents :: "'a list \<Rightarrow> nat \<Rightarrow> 'a list list" where
  "batch_process_documents documents batch_size =
     (if batch_size = 0 \<or> documents = [] then []
      else take batch_size documents
             # batch_process_documents (drop batch_size documents) batch_size)"
  by pat_completeness auto
termination
  by (relation "measure (\<lambda>(documents, batch_size). length documents)") auto

declare batch_process_documents.simps [simp del]

text \<open>The loop over \<open>zip(batches, id_batches)\<close>: it stops at the first exception.\<close>

fun add_batches ::
  "(string \<Rightarrow> 'v) \<Rightarrow> (document list \<times> string list) list \<Rightarrow> 'v faiss \<Rightarrow> error option \<times> 'v faiss" where
  "add_batches emb [] vs = (None, vs)"
| "add_batches emb ((batch, batch_ids) # rest) vs =
     (case faiss_add_documents emb batch batch_ids vs of
        (Some e, vs') \<Rightarrow> (Some e, vs')
      | (None, vs') \<Rightarrow> add_batches emb rest vs')"

text \<open>\<open>f"{source}_{doc_uuid}"\<close> for each document, drawing the uuids \<open>n, n+1, \<dots>\<close>\<close>

definition generated_ids :: "(nat \<Rightarrow> string) \<Rightarrow> nat \<Rightarrow> document list \<Rightarrow> string list" where
  "generated_ids uuid4 n documents =
     map (\<lambda>p. dict_get (metadata (snd p)) ''file_name'' [] @ ''_'' @ uuid4 (fst p))
         (enumerate n documents)"

text \<open>
  \<open>FAISSVectorStore.add_documents\<close>: the value returned or the exception raised, and the
  state afterwards. An exception of the library is not caught here, so it leaves the
  object as far as the loop got and the directory as it was.
\<close>

definition add_documents ::
  "(string \<Rightarrow> 'v) \<Rightarrow> (nat \<Rightarrow> string) \<Rightarrow> document list \<Rightarrow> nat \<Rightarrow> string list option \<Rightarrow>
   'v store_state \<Rightarrow> (error + bool) \<times> 'v store_state" where
  "add_documents emb uuid4 documents batch_size ids_arg s =
     (if documents = [] then (Inr False, s)
      else
        (let ids = (case ids_arg of
                      None \<Rightarrow> generated_ids uuid4 (uuid_count s) documents
                    | Some given \<Rightarrow> given);
             s1 = (case ids_arg of
                     None \<Rightarrow> s\<lparr>uuid_count := uuid_count s + length documents\<rparr>
                   | Some given \<Rightarrow> s)
         in if length documents \<noteq> length ids then (Inl ValueError, s1)
            else if batch_size = 0 then (Inl ValueError, s1)
            else
              (case add_batches emb
                      (zip (batch_process_documents documents batch_size)
                           (batch_process_documents ids batch_size))
                      (vector_store s1) of
                 (Some e, vs') \<Rightarrow> (Inl e, s1\<lparr>vector_store := vs'\<rparr>)
               | (None, vs') \<Rightarrow> (Inr True, save (s1\<lparr>vector_store := vs'\<rparr>)))))"

text \<open>
  \<open>FAISSVectorStore.clear\<close>: \<open>index.reset()\<close>, a new empty id dictionary, a new empty
  \<open>InMemoryDocstore\<close>, then \<open>save_local\<close>.
\<close>

definition clear :: "'v store_state \<Rightarrow> 'v store_state" where
  "clear s =
     save (s\<lparr>vector_store :=
               (vector_store s)\<lparr>index := [],
                                index_to_docstore_id := [],
                                docstore := Map.empty\<rparr>\<rparr>)"

text \<open>\<open>str.startswith\<close>\<close>

fun startswith :: "string \<Rightarrow> string \<Rightarrow> bool" where
  "startswith s [] = True"
| "startswith [] (p # ps) = False"
| "startswith (c # cs) (p # ps) = (c = p \<and> startswith cs ps)"

text \<open>
  \<open>FAISSVectorStore.delete_by_source\<close>: \<open>False\<close> at once for an empty \<open>doc_id\<close>; the ids to
  delete are those in the id dictionary that start with \<open>f"{doc_id}_"\<close>; \<open>False\<close> when
  there is none; an exception of the library's \<open>delete\<close> is caught and answered with
  \<open>False\<close>, with no save.
\<close>

definition delete_by_source :: "string \<Rightarrow> 'v store_state \<Rightarrow> bool \<times> 'v store_state" where
  "delete_by_source doc_id s =
     (if doc_id = [] then (False, s)
      else
        (let all_ids = index_to_docstore_id (vector_store s);
             ids_to_delete = filter (\<lambda>i. startswith i (doc_id @ ''_'')) all_ids
         in if ids_to_delete = [] then (False, s)
            else
              (case faiss_delete ids_to_delete (vector_store s) of
                 (Some e, vs') \<Rightarrow> (False, s\<lparr>vector_store := vs'\<rparr>)
               | (None, vs') \<Rightarrow> (True, save (s\<lparr>vector_store := vs'\<rparr>)))))"


section \<open>Conversation memory (\<open>src/src/memory/long_term_memory.py\<close>)\<close>

subsection \<open>Messages and agent state\<close>

text \<open>
  A message content is a string or a list of items, an item a string or a dictionary.
  The message classes are those of \<open>langchain_core.messages\<close>: each has \<open>type\<close> and
  \<open>content\<close>, only \<open>AIMessage\<close> has \<open>tool_calls\<close>, only \<open>ChatMessage\<close> has \<open>role\<close>.
\<close>

datatype item = StrItem string | DictItem "(string \<times> string) list"

datatype content = Text string | Parts "item list"

type_synonym tool_call = string

datatype message =
    HumanMessage content
  | AIMessage content "tool_call list"
  | ToolMessage content
  | SystemMessage content
  | ChatMessage string content

fun message_type :: "message \<Rightarrow> string" where
  "message_type (HumanMessage c) = ''human''"
| "message_type (AIMessage c tcs) = ''ai''"
| "message_type (ToolMessage c) = ''tool''"
| "message_type (SystemMessage c) = ''system''"
| "message_type (ChatMessage r c) = ''chat''"

fun message_content :: "message \<Rightarrow> content" where
  "message_content (HumanMessage c) = c"
| "message_content (AIMessage c tcs) = c"
| "message_content (ToolMessage c) = c"
| "message_content (SystemMessage c) = c"
| "message_content (ChatMessage r c) = c"

text \<open>\<open>isinstance(m, AIMessage)\<close>, which is also \<open>hasattr(m, "tool_calls")\<close>\<close>

fun is_AIMessage :: "message \<Rightarrow> bool" where
  "is_AIMessage (AIMessage c tcs) = True"
| "is_AIMessage m = False"

text \<open>\<open>m.tool_calls\<close> where the attribute exists, the empty list where it does not\<close>

fun tool_calls :: "message \<Rightarrow> tool_call list" where
  "tool_calls (AIMessage c tcs) = tcs"
| "tool_calls m = []"

text \<open>\<open>m.role\<close> where the attribute exists\<close>

fun message_role :: "message \<Rightarrow> string option" where
  "message_role (ChatMessage r c) = Some r"
| "message_role m = None"

text \<open>Python truth of a content: a string or list is true when it is not empty.\<close>

fun truthy :: "content \<Rightarrow> bool" where
  "truthy (Text s) = (s \<noteq> [])"
| "truthy (Parts items) = (items \<noteq> [])"

text \<open>
  The middlewares probe their \<open>state\<close> argument: \<open>getattr(state, "messages", [])\<close>,
  \<open>getattr(state, "system", "")\<close>, \<open>hasattr(state, "response")\<close>. A state is an object
  with some of these attributes, or a dictionary with some of these keys; a dictionary
  has none of them as an attribute.
\<close>

record fields =
  messages :: "message list option"
  system :: "string option"
  response :: "message option"

datatype state = StateObject fields | StateDict fields

fun getattr_messages :: "state \<Rightarrow> message list" where
  "getattr_messages (StateObject a) = (case messages a of None \<Rightarrow> [] | Some ms \<Rightarrow> ms)"
| "getattr_messages (StateDict a) = []"

fun getattr_system :: "state \<Rightarrow> string" where
  "getattr_system (StateObject a) = (case system a of None \<Rightarrow> [] | Some p \<Rightarrow> p)"
| "getattr_system (StateDict a) = []"

fun getattr_response :: "state \<Rightarrow> message option" where
  "getattr_response (StateObject a) = response a"
| "getattr_response (StateDict a) = None"

text \<open>
  The message history a state carries, whichever way it has to be read:
  \<open>state.messages\<close> on an object, \<open>state["messages"]\<close> on a dictionary.
\<close>

fun carried_messages :: "state \<Rightarrow> message list" where
  "carried_messages (StateObject a) = (case messages a of None \<Rightarrow> [] | Some ms \<Rightarrow> ms)"
| "carried_messages (StateDict a) = (case messages a of None \<Rightarrow> [] | Some ms \<Rightarrow> ms)"

text \<open>\<open>runtime.kwargs\<close>, a dictionary\<close>

record runtime =
  kwargs :: "(string \<times> string) list"

subsection \<open>The Chroma collection\<close>

text \<open>
  \<open>chroma_store\<close>: a collection keyed by id; \<open>add_texts\<close> with an id upserts. Its calls
  go to the embedding service and the database and can raise; \<open>available\<close> says whether
  they succeed. The ranking by similarity is a function \<open>rank\<close> given from outside.
\<close>

record chroma =
  collection :: "string \<rightharpoonup> document"
  available :: bool

definition add_texts :: "string \<Rightarrow> document \<Rightarrow> chroma \<Rightarrow> error + chroma" where
  "add_texts msg_id doc ch =
     (if available ch then Inr (ch\<lparr>collection := (collection ch)(msg_id \<mapsto> doc)\<rparr>)
      else Inl StoreError)"

definition similarity_search ::
  "((string \<rightharpoonup> document) \<Rightarrow> content \<Rightarrow> document list) \<Rightarrow> chroma \<Rightarrow> content \<Rightarrow> nat \<Rightarrow>
   error + document list" where
  "similarity_search rank ch query k =
     (if available ch then Inr (take k (rank (collection ch) query)) else Inl StoreError)"

subsection \<open>The middlewares\<close>

text \<open>\<open>generate_msg_id\<close>; \<open>md5\<close> stands for \<open>hashlib.md5(\<dots>).hexdigest()\<close>.\<close>

definition generate_msg_id :: "(string \<Rightarrow> string) \<Rightarrow> string \<Rightarrow> string \<Rightarrow> string" where
  "generate_msg_id md5 content_str role_str = md5 (role_str @ '':'' @ content_str)"

text \<open>
  The \<open>try\<close> block that both save middlewares end with: the id is computed, the text is
  written under it with its role and the current time \<open>now\<close>, and an exception is caught
  and logged.
\<close>

definition persist :: "(string \<Rightarrow> string) \<Rightarrow> string \<Rightarrow> string \<Rightarrow> string \<Rightarrow> chroma \<Rightarrow> chroma" where
  "persist md5 role_str content_str now ch =
     (case add_texts (generate_msg_id md5 content_str role_str)
             \<lparr>page_content = content_str,
              metadata = [(''role'', role_str), (''timestamp'', now)]\<rparr> ch of
        Inl e \<Rightarrow> ch
      | Inr ch' \<Rightarrow> ch')"

text \<open>
  The text of a content: a list is replaced by the \<open>"text"\<close> values of its dictionary
  items, joined by spaces.
\<close>

fun text_parts :: "item list \<Rightarrow> string list" where
  "text_parts [] = []"
| "text_parts (StrItem s # items) = text_parts items"
| "text_parts (DictItem d # items) =
     (case map_of d ''text'' of
        None \<Rightarrow> text_parts items
      | Some t \<Rightarrow> t # text_parts items)"

fun content_text :: "content \<Rightarrow> string" where
  "content_text (Text s) = s"
| "content_text (Parts items) = str_join '' '' (text_parts items)"

text \<open>\<open>str.strip()\<close>, with the whitespace characters below 256\<close>

definition is_space :: "char \<Rightarrow> bool" where
  "is_space c \<longleftrightarrow>
     c = CHR 0x09 \<or> c = NL \<or> c = CHR 0x0B \<or> c = CHR 0x0C \<or> c = CR \<or>
     c = CHR 0x1C \<or> c = CHR 0x1D \<or> c = CHR 0x1E \<or> c = CHR 0x1F \<or>
     c = CHR 0x20 \<or> c = CHR 0x85 \<or> c = CHR 0xA0"

definition strip :: "string \<Rightarrow> string" where
  "strip s = rev (dropWhile is_space (rev (dropWhile is_space s)))"

text \<open>
  \<open>retrieve_similar_history_middleware\<close>. The query is the content of the last message
  when that is a human message or any message without \<open>tool_calls\<close>. The search is
  called outside any \<open>try\<close>, so its exception leaves the function. The result is the
  exception, or the state returned and the runtime with its \<open>kwargs["system"]\<close>.
\<close>

definition retrieve_similar_history_middleware ::
  "((string \<rightharpoonup> document) \<Rightarrow> content \<Rightarrow> document list) \<Rightarrow> chroma \<Rightarrow> state \<Rightarrow> runtime \<Rightarrow>
   error + state \<times> runtime" where
  "retrieve_similar_history_middleware rank ch st rt =
     (let msgs = getattr_messages st
      in if msgs = [] then Inr (st, rt)
         else
           (let last_msg = last msgs;
                current_query =
                  (if message_type last_msg = ''human'' then message_content last_msg
                   else if \<not> is_AIMessage last_msg then message_content last_msg
                   else Text [])
            in if \<not> truthy current_query then Inr (st, rt)
               else
                 (case similarity_search rank ch current_query 3 of
                    Inl e \<Rightarrow> Inl e
                  | Inr results \<Rightarrow>
                      if results = [] then Inr (st, rt)
                      else
                        (let history_context =
                               str_join [NL] (map (\<lambda>r. ''- '' @ page_content r) results);
                             additional_prompt =
                               [NL, NL] @ ''## Reference Conversation History (Memory):''
                               @ [NL] @ history_context @ [NL];
                             original_system =
                               (case map_of (kwargs rt) ''system'' of
                                  Some p \<Rightarrow> if p \<noteq> [] then p else getattr_system st
                                | None \<Rightarrow> getattr_system st)
                         in Inr (st, rt\<lparr>kwargs :=
                                   dict_set ''system'' (original_system @ additional_prompt)
                                     (kwargs rt)\<rparr>)))))"

text \<open>\<open>save_user_messages_middleware\<close>: the state returned and the collection afterwards\<close>

definition save_user_messages_middleware ::
  "(string \<Rightarrow> string) \<Rightarrow> string \<Rightarrow> chroma \<Rightarrow> state \<Rightarrow> state \<times> chroma" where
  "save_user_messages_middleware md5 now ch st =
     (let msgs = getattr_messages st
      in if msgs = [] then (st, ch)
         else
           (let last_msg = last msgs;
                is_human = (message_type last_msg = ''human''
                            \<or> message_role last_msg = Some ''user'')
            in if is_human
               then (let content_str = content_text (message_content last_msg)
                     in if content_str \<noteq> [] \<and> strip content_str \<noteq> []
                        then (st, persist md5 ''user'' content_str now ch)
                        else (st, ch))
               else (st, ch)))"

text \<open>\<open>save_assistant_response_middleware\<close>\<close>

definition save_assistant_response_middleware ::
  "(string \<Rightarrow> string) \<Rightarrow> string \<Rightarrow> chroma \<Rightarrow> state \<Rightarrow> state \<times> chroma" where
  "save_assistant_response_middleware md5 now ch st =
     (case getattr_response st of
        None \<Rightarrow> (st, ch)
      | Some resp \<Rightarrow>
          if tool_calls resp \<noteq> [] then (st, ch)
          else
            (let content_str = content_text (message_content resp)
             in if content_str \<noteq> [] \<and> strip content_str \<noteq> []
                then (st, persist md5 ''assistant'' content_str now ch)
                else (st, ch)))"

text \<open>
  \<open>sanitize_dangling_tool_middleware\<close>: when the last message is an \<open>AIMessage\<close> with a
  non-empty \<open>tool_calls\<close>, \<open>state.messages\<close> is assigned \<open>messages[:-1]\<close>. The message list
  was read with \<open>getattr\<close>, so a state that reaches the assignment has the attribute.
\<close>

definition sanitize_dangling_tool_middleware :: "state \<Rightarrow> state" where
  "sanitize_dangling_tool_middleware st =
     (let msgs = getattr_messages st
      in if msgs = [] then st
         else
           (let last_msg = last msgs
            in if is_AIMessage last_msg \<and> tool_calls last_msg \<noteq> []
               then (case st of
                       StateObject a \<Rightarrow> StateObject (a\<lparr>messages := Some (butlast msgs)\<rparr>)
                     | StateDict a \<Rightarrow> st)
               else st))"


text \<open>
  The condition the sanitizer tests on a message list: it is not empty and its last
  message is an \<open>AIMessage\<close> with a non-empty \<open>tool_calls\<close>.
\<close>

definition dangling_tool_call :: "message list \<Rightarrow> bool" where
  "dangling_tool_call msgs \<longleftrightarrow>
     msgs \<noteq> [] \<and> is_AIMessage (last msgs) \<and> tool_calls (last msgs) \<noteq> []"


section \<open>Conversation session (\<open>src/src/chains/faiss_conversational_chain.py\<close>)\<close>

subsection \<open>The middleware list of the agent\<close>

text \<open>
  The \<open>middleware=[\<dots>]\<close> argument of \<open>create_agent\<close> in
  \<open>FAISSConversationalRAGChain.__init__\<close>, with the hook each entry implements: the four
  functions are decorated \<open>@before_model\<close> or \<open>@after_model\<close>, and LangChain's
  \<open>SummarizationMiddleware\<close> (here with \<open>max_tokens_before_summary\<close> and
  \<open>messages_to_keep\<close>) works before the model.
\<close>

datatype middleware =
    Sanitize_dangling_tool
  | Summarization nat nat
  | Retrieve_similar_history
  | Save_user_messages
  | Save_assistant_response

datatype hook = Before_model | After_model

fun hook_of :: "middleware \<Rightarrow> hook" where
  "hook_of Sanitize_dangling_tool = Before_model"
| "hook_of (Summarization max_tokens_before_summary messages_to_keep) = Before_model"
| "hook_of Retrieve_similar_history = Before_model"
| "hook_of Save_user_messages = Before_model"
| "hook_of Save_assistant_response = After_model"

definition agent_middleware :: "middleware list" where
  "agent_middleware =
     [Sanitize_dangling_tool,
      Summarization 4000 20,
      Retrieve_similar_history,
      Save_user_messages,
      Save_assistant_response]"

text \<open>
  One model turn of an agent built by \<open>create_agent\<close>: the \<open>before_model\<close> hooks in list
  order, the model call, the \<open>after_model\<close> hooks in reverse list order.
\<close>

datatype step = Run middleware | Model_call

definition turn_steps :: "middleware list \<Rightarrow> step list" where
  "turn_steps mws =
     map Run (filter (\<lambda>m. hook_of m = Before_model) mws)
     @ [Model_call]
     @ map Run (rev (filter (\<lambda>m. hook_of m = After_model) mws))"

text \<open>The position of the first occurrence of a step, \<open>list.index\<close>.\<close>

fun position :: "'a \<Rightarrow> 'a list \<Rightarrow> nat option" where
  "position x [] = None"
| "position x (y # ys) =
     (if x = y then Some 0 else map_option Suc (position x ys))"

subsection \<open>The per-session checkpoint store\<close>

text \<open>
  \<open>Config.SHORT_TERM_MEMORY\<close> is a directory of SQLite files, one \<open>{session_id}.db\<close> per
  session; a file is the checkpoint database of \<open>SqliteSaver\<close>, from thread id to the
  message history last written.
\<close>

type_synonym checkpoint_db = "string \<rightharpoonup> message list"

type_synonym short_term_memory = "string \<rightharpoonup> checkpoint_db"

text \<open>
  The part of \<open>FAISSConversationalRAGChain.__init__\<close> that touches the directory: every
  file below it is unlinked, then \<open>sqlite3.connect\<close> opens \<open>{session_id}.db\<close> and the
  \<open>PRAGMA\<close> writes it, a database with no checkpoint.
\<close>

definition chain_init :: "string \<Rightarrow> short_term_memory \<Rightarrow> short_term_memory" where
  "chain_init session_id dir = Map.empty(session_id @ ''.db'' \<mapsto> Map.empty)"

text \<open>
  \<open>get_conversational_chain\<close>: \<open>_sessions\<close> (here the list of its keys) caches the chain
  objects of the running process; a session id that is not cached gets a new object.
\<close>

definition get_conversational_chain ::
  "string \<Rightarrow> string list \<times> short_term_memory \<Rightarrow> string list \<times> short_term_memory" where
  "get_conversational_chain session_id p =
     (if session_id \<in> set (fst p) then p
      else (session_id # fst p, chain_init session_id (snd p)))"

text \<open>What the checkpointer of a session finds for a thread.\<close>

definition get_checkpoint :: "short_term_memory \<Rightarrow> string \<Rightarrow> string \<Rightarrow> message list option" where
  "get_checkpoint dir session_id thread_id =
     (case dir (session_id @ ''.db'') of
        None \<Rightarrow> None
      | Some db \<Rightarrow> db thread_id)"

subsection \<open>Uploading a document\<close>

text \<open>
  \<open>FAISSConversationalRAGChain.add_documents\<close>: the returned value (\<open>Some\<close> message, or
  \<open>None\<close> when the method falls off its end) or the exception, the disk, and the vector
  store.
\<close>

definition chain_add_documents ::
  "(loader_class \<Rightarrow> string \<Rightarrow> error + document list) \<Rightarrow> (document list \<Rightarrow> document list) \<Rightarrow>
   (path \<Rightarrow> error option) \<Rightarrow> path \<Rightarrow> (string \<Rightarrow> 'v) \<Rightarrow> (nat \<Rightarrow> string) \<Rightarrow>
   uploaded_file option \<Rightarrow>
   filesystem \<times> 'v store_state \<Rightarrow> (error + string option) \<times> filesystem \<times> 'v store_state" where
  "chain_add_documents run_loader split_documents os_open documents_path emb uuid4 file_path p =
     (case process_file run_loader split_documents os_open documents_path file_path True (fst p) of
        (Inl e, fs') \<Rightarrow> (Inl e, fs', snd p)
      | (Inr chunks, fs') \<Rightarrow>
          if chunks = []
          then (Inr (Some (''Skipping already processed file:  ''
                           @ (case file_path of None \<Rightarrow> [] | Some f \<Rightarrow> name f) @ '' '')),
                fs', snd p)
          else
            (case add_documents emb uuid4 chunks 10 None (snd p) of
               (Inl e, s') \<Rightarrow> (Inl e, fs', s')
             | (Inr b, s') \<Rightarrow> (Inr None, fs', s')))"


section \<open>Collaborators used in the concrete examples\<close>

text \<open>A loader that returns the file content as one document, and a splitter that
  leaves the documents as they are.\<close>

definition one_page_loader :: "loader_class \<Rightarrow> string \<Rightarrow> error + document list" where
  "one_page_loader cls text = Inr [\<lparr>page_content = text, metadata = []\<rparr>]"

definition no_split :: "document list \<Rightarrow> document list" where
  "no_split documents = documents"

text \<open>An operating system that opens every file it is asked for, and a documents
  directory \<open>documents\<close> below the working directory.\<close>

definition always_opens :: "path \<Rightarrow> error option" where
  "always_opens p = None"

definition documents_here :: path where
  "documents_here = \<lparr>anchored = False, components = [''documents'']\<rparr>"

text \<open>A sequence of pairwise different uuids: \<open>u\<close>, \<open>uu\<close>, \<open>uuu\<close>, \<dots>\<close>

definition unary_uuid4 :: "nat \<Rightarrow> string" where
  "unary_uuid4 k = replicate (Suc k) CHR ''u''"

text \<open>An embedding into the natural numbers, and a ranking that finds nothing.\<close>

definition length_emb :: "string \<Rightarrow> nat" where
  "length_emb t = length t"

definition no_rank :: "(string \<rightharpoonup> document) \<Rightarrow> content \<Rightarrow> document list" where
  "no_rank coll query = []"

definition plain_md5 :: "string \<Rightarrow> string" where
  "plain_md5 raw = raw"


text \<open>A store created on an empty index directory, and three chunks to add to it.\<close>

definition fresh_store :: "nat store_state" where
  "fresh_store = load_or_create_vector_store length_emb unary_uuid4 Absent 0"

definition doc_a :: document where
  "doc_a = \<lparr>page_content = ''alpha'', metadata = [(''file_name'', ''a.txt'')]\<rparr>"

definition doc_b :: document where
  "doc_b = \<lparr>page_content = ''beta'', metadata = [(''file_name'', ''b.txt'')]\<rparr>"

definition doc_unnamed :: document where
  "doc_unnamed = \<lparr>page_content = ''gamma'', metadata = []\<rparr>"



definition a_upload :: uploaded_file where
  "a_upload = \<lparr>name = ''a.txt'', getbuffer = ''alpha''\<rparr>"

definition b_upload :: uploaded_file where
  "b_upload = \<lparr>name = ''b.txt'', getbuffer = ''beta''\<rparr>"

definition c_upload :: uploaded_file where
  "c_upload = \<lparr>name = ''c.txt'', getbuffer = ''gamma''\<rparr>"

definition upload :: "uploaded_file \<Rightarrow> filesystem \<times> nat store_state \<Rightarrow>
    (error + string option) \<times> filesystem \<times> nat store_state" where
  "upload f p =
     chain_add_documents one_page_loader no_split always_opens documents_here
       length_emb unary_uuid4 (Some f) p"

text \<open>
  The disk and the store after uploading \<open>a.txt\<close> and \<open>b.txt\<close> and then deleting
  \<open>b.txt\<close> as \<open>FAISSConversationalRAGChain.delete_documents\<close> does.
\<close>

definition after_delete :: "filesystem \<times> nat store_state" where
  "after_delete =
     (let p1 = snd (upload a_upload (empty_fs, fresh_store));
          p2 = snd (upload b_upload p1)
      in (delete_processed_document ''b.txt'' (fst p2), snd (delete_by_source ''b.txt'' (snd p2))))"

text \<open>An object state whose history is one user message, and a collection whose
  calls fail.\<close>

definition hi_state :: state where
  "hi_state = StateObject \<lparr>messages = Some [HumanMessage (Text ''hi'')], system = None, response = None\<rparr>"

definition down_chroma :: chroma where
  "down_chroma = \<lparr>collection = Map.empty, available = False\<rparr>"

text \<open>
  The states as \<open>create_agent\<close> hands them to a hook, dictionaries: one whose history
  is the user message \<open>hello\<close>, one that also holds the model's answer as \<open>response\<close>,
  and one left by a run that stopped after the model asked for a tool. And a
  collection whose calls succeed.
\<close>

definition hello_dict :: state where
  "hello_dict =
     StateDict \<lparr>messages = Some [HumanMessage (Text ''hello'')], system = None, response = None\<rparr>"

definition answered_dict :: state where
  "answered_dict =
     StateDict \<lparr>messages = Some [HumanMessage (Text ''hello'')], system = None,
               response = Some (AIMessage (Text ''hi there'') [])\<rparr>"

definition crashed_dict :: state where
  "crashed_dict =
     StateDict \<lparr>messages = Some [HumanMessage (Text ''what is in manual.pdf?''),
                                 AIMessage (Text []) [''call_1'']],
               system = None, response = None\<rparr>"

definition up_chroma :: chroma where
  "up_chroma = \<lparr>collection = Map.empty, available = True\<rparr>"

text \<open>A checkpoint directory holding one session with one thread.\<close>

definition stored_dir :: short_term_memory where
  "stored_dir = [''session_123.db'' \<mapsto> [''thread_1'' \<mapsto> [HumanMessage (Text ''hi'')]]]"


section \<open>Unfolding the model on concrete inputs\<close>

lemmas eval_store = fresh_store_def load_or_create_vector_store_def FAISS_from_texts_def
  faiss_add_documents_def docstore_add_def empty_faiss_def Let_def add_documents_def
  generated_ids_def dict_get_def save_def clear_def unary_uuid4_def length_emb_def
  batch_process_documents.simps doc_a_def doc_b_def doc_unnamed_def init_text_def
  delete_by_source_def faiss_delete_def docstore_delete_def remove_ids_def reversed_index_def
  map_filter_def

lemmas eval_ingest = upload_def chain_add_documents_def process_file_def load_document_def
  SUPPORTED_LOADERS_def suffix_def lower_def lower_char_def is_document_processed_def
  record_processed_document_def delete_processed_document_def list_all_processed_documents_def
  splitlines_def is_linebreak_def one_page_loader_def no_split_def empty_fs_def
  a_upload_def b_upload_def c_upload_def
  write_upload_def resolve_def path_parts_def is_absolute_def joinpath_def
  Path_def path_name_def path_str_def always_opens_def documents_here_def


section \<open>Properties of the Document Registry\<close>

subsection \<open>A record written by appends only\<close>

lemma splitlines_from_line:
  "\<forall>c \<in> set d. \<not> is_linebreak c \<Longrightarrow> splitlines_from cur (d @ [NL]) = [cur @ d]"
proof (induction d arbitrary: cur)
  case Nil
  then show ?case by (simp add: is_linebreak_def)
next
  case (Cons c d)
  have c: "\<not> is_linebreak c" "c \<noteq> CR"
    using Cons.prems by (auto simp: is_linebreak_def)
  obtain e es where e: "d @ [NL] = e # es" by (cases "d @ [NL]") auto
  have "splitlines_from cur ((c # d) @ [NL]) = splitlines_from (cur @ [c]) (d @ [NL])"
    using c e by simp
  also have "\<dots> = [(cur @ [c]) @ d]"
    using Cons.prems by (intro Cons.IH) simp
  finally show ?case by simp
qed

lemma splitlines_from_append:
  "s \<noteq> [] \<Longrightarrow> last s = NL \<Longrightarrow>
   splitlines_from cur (s @ t) = splitlines_from cur s @ splitlines_from [] t"
proof (induction cur s rule: splitlines_from.induct)
  case (1 cur)
  then show ?case by simp
next
  case (2 cur c)
  then have c: "c = NL" by simp
  show ?case
    by (cases t) (simp_all add: c is_linebreak_def)
next
  case (3 cur c d cs)
  show ?case
  proof (cases "c = CR \<and> d = NL")
    case True
    show ?thesis
    proof (cases "cs = []")
      case True
      with \<open>c = CR \<and> d = NL\<close> show ?thesis by simp
    next
      case False
      with 3 True show ?thesis by simp
    qed
  next
    case False
    with 3 show ?thesis by auto
  qed
qed

lemma splitlines_append_line:
  assumes "\<forall>c \<in> set d. \<not> is_linebreak c" and "s = [] \<or> last s = NL"
  shows "splitlines (s @ d @ [NL]) = splitlines s @ [d]"
proof (cases "s = []")
  case True
  then show ?thesis
    using splitlines_from_line [OF assms(1), of "[]"] by (simp add: splitlines_def)
next
  case False
  with assms(2) have "last s = NL" by simp
  then show ?thesis
    using splitlines_from_append [OF False, of "[]" "d @ [NL]"]
      splitlines_from_line [OF assms(1), of "[]"]
    by (simp add: splitlines_def)
qed

lemma record_on_newline_terminated:
  assumes "newline_terminated fs" and "\<forall>c \<in> set doc_id. \<not> is_linebreak c"
  shows "list_all_processed_documents (record_processed_document doc_id fs) =
           list_all_processed_documents fs @ [doc_id]"
proof (cases "processed_docs_record fs")
  case None
  then show ?thesis
    using splitlines_append_line [OF assms(2), of "[]"]
    by (simp add: record_processed_document_def list_all_processed_documents_def splitlines_def)
next
  case (Some recorded)
  with assms(1) have "recorded = [] \<or> last recorded = NL"
    by (simp add: newline_terminated_def)
  from splitlines_append_line [OF assms(2) this] Some show ?thesis
    by (simp add: record_processed_document_def list_all_processed_documents_def)
qed

lemma record_keeps_newline_terminated:
  "newline_terminated (record_processed_document doc_id fs)"
  by (simp add: newline_terminated_def record_processed_document_def)

lemma is_document_processed_list:
  "is_document_processed fs doc_id \<longleftrightarrow> doc_id \<in> set (list_all_processed_documents fs)"
  by (simp add: is_document_processed_def list_all_processed_documents_def split: option.splits)

subsection \<open>An append after a rewrite\<close>

text \<open>
  C10. The claim: after record(Y), is_processed(Y) holds, and every doc_id recorded
  earlier and not deleted stays processed, also when a delete of another doc_id has
  rewritten the record file before the append. The code at the input
  record a.txt, record b.txt, delete a.txt, record c.txt: the rewrite leaves the file
  as \<open>b.txt\<close> with no final newline, the append makes it the single line
  \<open>b.txtc.txt\<close>, and afterwards neither \<open>c.txt\<close> (just recorded) nor \<open>b.txt\<close>
  (recorded earlier, never deleted) is reported as processed.
\<close>

theorem record_after_delete_breaks_membership:
  "processed_docs_record
     (record_processed_document ''c.txt''
       (delete_processed_document ''a.txt''
         (record_processed_document ''b.txt''
           (record_processed_document ''a.txt'' empty_fs))))
     = Some (''b.txtc.txt'' @ [NL])
   \<and> is_document_processed
        (record_processed_document ''b.txt''
          (record_processed_document ''a.txt'' empty_fs)) ''b.txt''
   \<and> \<not> is_document_processed
        (record_processed_document ''c.txt''
          (delete_processed_document ''a.txt''
            (record_processed_document ''b.txt''
              (record_processed_document ''a.txt'' empty_fs)))) ''c.txt''
   \<and> \<not> is_document_processed
        (record_processed_document ''c.txt''
          (delete_processed_document ''a.txt''
            (record_processed_document ''b.txt''
              (record_processed_document ''a.txt'' empty_fs)))) ''b.txt''"
  by (simp add: record_processed_document_def delete_processed_document_def
      list_all_processed_documents_def is_document_processed_def empty_fs_def
      splitlines_def is_linebreak_def)


section \<open>Properties of ingestion\<close>

subsection \<open>Names and the write\<close>


lemma write_upload_record:
  "write_upload os_open documents_path nm buffer fs = Inr fs1 \<Longrightarrow>
   processed_docs_record fs1 = processed_docs_record fs"
  by (auto simp: write_upload_def split: if_splits target.splits option.splits)


text \<open>
  A name that leaves no component points at the documents directory itself, and the
  write raises out of \<open>_process_file\<close>; a final separator does not count, so \<open>a.txt/\<close>
  is saved and loaded as \<open>a.txt\<close>.
\<close>

lemma directory_name_raises:
  "process_file run_loader split_documents os_open documents_path
     (Some \<lparr>name = [], getbuffer = buffer\<rparr>) False fs = (Inl IsADirectoryError, fs)"
  by (simp add: process_file_def write_upload_def resolve_def path_parts_def)

lemma trailing_separator_is_ingested:
  "fst (process_file one_page_loader no_split always_opens documents_here
     (Some \<lparr>name = ''a.txt/'', getbuffer = ''alpha''\<rparr>) True empty_fs)
   = Inr [\<lparr>page_content = ''alpha'',
           metadata = [(''source'', ''documents/a.txt''), (''file_name'', ''a.txt''),
                       (''file_type'', ''.txt'')]\<rparr>]"
  by (simp add: process_file_def load_document_def SUPPORTED_LOADERS_def suffix_def lower_def
      lower_char_def empty_fs_def is_document_processed_def one_page_loader_def no_split_def
      Let_def eval_ingest)

subsection \<open>An unsupported extension\<close>




subsection \<open>A second upload\<close>

text \<open>
  On a record that only appends have written, a second upload of a file that was
  chunked the first time is skipped: the skip path itself works.
\<close>

lemma second_process_file_skipped:
  assumes "newline_terminated fs" and "\<forall>c \<in> set (name f). \<not> is_linebreak c"
    and "process_file run_loader split_documents os_open documents_path (Some f) True fs
           = (Inr chunks, fs')"
    and "chunks \<noteq> []"
  shows "process_file run_loader split_documents os_open documents_path (Some f) True fs'
           = (Inr [], fs')"
proof -
  from assms(3,4) obtain fs1 where
    fs': "fs' = record_processed_document (name f) fs1" and
    w: "write_upload os_open documents_path (name f) (getbuffer f) fs = Inr fs1"
    by (auto simp: process_file_def Let_def split: if_splits sum.splits)
  have nt: "newline_terminated fs1"
    using assms(1) write_upload_record [OF w] by (simp add: newline_terminated_def)
  have "is_document_processed fs' (name f)"
    unfolding fs' is_document_processed_list
    using record_on_newline_terminated [OF nt assms(2)] by simp
  then show ?thesis
    by (simp add: process_file_def)
qed

lemma after_delete_record: "processed_docs_record (fst after_delete) = Some ''a.txt''"
  by (simp add: after_delete_def eval_ingest eval_store)

text \<open>
  C9. The claim: a second ingestion of the same file name with skip-if-processed
  enabled yields no chunk and the skip message. The code at the input
  upload a.txt, upload b.txt, delete b.txt, upload c.txt, upload c.txt: the delete
  leaves the record as \<open>a.txt\<close> with no final newline, the first upload of \<open>c.txt\<close>
  appends to that line, so the second upload does not find \<open>c.txt\<close> in the record;
  it returns \<open>None\<close> (no skip message) and the chunk is indexed a second time.
\<close>

theorem second_upload_not_skipped_after_delete:
  "processed_docs_record (fst after_delete) = Some ''a.txt''
   \<and> fst (upload c_upload after_delete) = Inr None
   \<and> processed_docs_record (fst (snd (upload c_upload after_delete))) = Some (''a.txtc.txt'' @ [NL])
   \<and> fst (upload c_upload (snd (upload c_upload after_delete))) = Inr None
   \<and> index_to_docstore_id (vector_store (snd (snd (upload c_upload (snd (upload c_upload after_delete))))))
       = [''u'', ''a.txt_uu'', ''c.txt_uuuu'', ''c.txt_uuuuu'']"
  by (simp add: after_delete_def eval_ingest eval_store)


section \<open>Properties of the Vector Index Manager\<close>

subsection \<open>Adding in batches\<close>

lemma map_of_rev_distinct: "distinct (map fst xs) \<Longrightarrow> map_of (rev xs) = map_of xs"
proof (induction xs)
  case Nil
  then show ?case by simp
next
  case (Cons x xs)
  then have "fst x \<notin> dom (map_of xs)"
    by (simp add: dom_map_of_conv_image_fst)
  then have "map_of xs (fst x) = None" by blast
  with Cons show ?case
    by (cases x) (auto simp: map_add_def fun_eq_iff split: option.splits)
qed

lemma faiss_add_documents_ok:
  assumes "length documents = length ids" "distinct ids"
    "set ids \<inter> dom (docstore vs) = {}"
  shows "faiss_add_documents emb documents ids vs =
    (None, \<lparr>index = index vs @ map (\<lambda>doc. emb (page_content doc)) documents,
            docstore = docstore vs ++ map_of (zip ids documents),
            index_to_docstore_id = index_to_docstore_id vs @ ids\<rparr>)"
proof -
  have fst_zip: "map fst (zip ids documents) = ids"
    using assms(1) by simp
  have no_overlap: "\<not> (\<exists>k \<in> set (map fst (zip ids documents)). docstore vs k \<noteq> None)"
    using assms(3) unfolding fst_zip by (auto simp: dom_def)
  have rev_eq: "map_of (rev (zip ids documents)) = map_of (zip ids documents)"
    using assms(2) fst_zip by (intro map_of_rev_distinct) simp
  show ?thesis
    using assms(1,2) no_overlap rev_eq
    by (simp add: faiss_add_documents_def docstore_add_def Let_def del: map_fst_zip)
qed

lemma add_batches_ok:
  assumes "0 < batch_size" "length documents = length ids" "distinct ids"
    "set ids \<inter> dom (docstore vs) = {}"
  shows "add_batches emb
           (zip (batch_process_documents documents batch_size)
                (batch_process_documents ids batch_size)) vs =
    (None, \<lparr>index = index vs @ map (\<lambda>doc. emb (page_content doc)) documents,
            docstore = docstore vs ++ map_of (zip ids documents),
            index_to_docstore_id = index_to_docstore_id vs @ ids\<rparr>)"
  using assms
proof (induction documents batch_size arbitrary: ids vs rule: batch_process_documents.induct)
  case (1 documents batch_size)
  show ?case
  proof (cases "documents = []")
    case True
    with "1.prems" show ?thesis
      by (simp add: batch_process_documents.simps)
  next
    case False
    let ?b = batch_size
    let ?vs1 = "\<lparr>index = index vs @ map (\<lambda>doc. emb (page_content doc)) (take ?b documents),
            docstore = docstore vs ++ map_of (zip (take ?b ids) (take ?b documents)),
            index_to_docstore_id = index_to_docstore_id vs @ take ?b ids\<rparr>"
    from False "1.prems" have ids_ne: "ids \<noteq> []" by auto
    have d_take: "distinct (take ?b ids)" and d_drop: "distinct (drop ?b ids)"
      using "1.prems"(3) by simp_all
    have disj: "set (take ?b ids) \<inter> set (drop ?b ids) = {}"
      using "1.prems"(3) by (metis append_take_drop_id distinct_append)
    have first: "faiss_add_documents emb (take ?b documents) (take ?b ids) vs = (None, ?vs1)"
      using "1.prems" d_take
      by (intro faiss_add_documents_ok) (auto dest: in_set_takeD)
    have dom1: "dom (docstore ?vs1) = dom (docstore vs) \<union> set (take ?b ids)"
      using "1.prems"(2) by (auto simp: dom_map_of_zip)
    have rest: "add_batches emb
           (zip (batch_process_documents (drop ?b documents) ?b)
                (batch_process_documents (drop ?b ids) ?b)) ?vs1 =
      (None, \<lparr>index = index ?vs1 @ map (\<lambda>doc. emb (page_content doc)) (drop ?b documents),
            docstore = docstore ?vs1 ++ map_of (zip (drop ?b ids) (drop ?b documents)),
            index_to_docstore_id = index_to_docstore_id ?vs1 @ drop ?b ids\<rparr>)"
    proof (rule "1.IH")
      show "\<not> (?b = 0 \<or> documents = [])" using False "1.prems"(1) by simp
      show "0 < ?b" by fact
      show "length (drop ?b documents) = length (drop ?b ids)" using "1.prems"(2) by simp
      show "distinct (drop ?b ids)" by fact
      show "set (drop ?b ids) \<inter> dom (docstore ?vs1) = {}"
        unfolding dom1 using disj "1.prems"(4) by (auto dest: in_set_dropD)
    qed
    have zip_split: "zip ids documents =
        zip (take ?b ids) (take ?b documents) @ zip (drop ?b ids) (drop ?b documents)"
      by (metis append_take_drop_id take_zip drop_zip)
    have dom_disj: "dom (map_of (zip (take ?b ids) (take ?b documents))) \<inter>
        dom (map_of (zip (drop ?b ids) (drop ?b documents))) = {}"
      using "1.prems"(2) disj by (simp add: dom_map_of_zip)
    have maps: "docstore vs ++ map_of (zip (take ?b ids) (take ?b documents))
         ++ map_of (zip (drop ?b ids) (drop ?b documents)) = docstore vs ++ map_of (zip ids documents)"
      by (subst zip_split) (simp add: map_add_comm [OF dom_disj] flip: map_add_assoc)
    have unfold: "add_batches emb
           (zip (batch_process_documents documents ?b) (batch_process_documents ids ?b)) vs =
       add_batches emb
           (zip (batch_process_documents (drop ?b documents) ?b)
                (batch_process_documents (drop ?b ids) ?b)) ?vs1"
      using False ids_ne "1.prems"(1) first
      by (subst batch_process_documents.simps, subst (2) batch_process_documents.simps) simp
    show ?thesis
      unfolding unfold rest using maps
      by (simp flip: map_append)
  qed
qed

lemma add_documents_given_ids_ok:
  assumes "documents \<noteq> []" "0 < batch_size" "length documents = length ids" "distinct ids"
    "set ids \<inter> dom (docstore (vector_store s)) = {}"
  shows "add_documents emb uuid4 documents batch_size (Some ids) s =
    (Inr True,
     save (s\<lparr>vector_store :=
       \<lparr>index = index (vector_store s) @ map (\<lambda>doc. emb (page_content doc)) documents,
        docstore = docstore (vector_store s) ++ map_of (zip ids documents),
        index_to_docstore_id = index_to_docstore_id (vector_store s) @ ids\<rparr>\<rparr>))"
  using assms add_batches_ok [OF assms(2,3,4,5), of emb]
  by (simp add: add_documents_def)

subsection \<open>Deleting\<close>

lemma docstore_pop_all_ok:
  "distinct ids \<Longrightarrow> set ids \<subseteq> dom d \<Longrightarrow>
   docstore_pop_all ids d = (None, d |` (- set ids))"
proof (induction ids arbitrary: d)
  case Nil
  then show ?case by simp
next
  case (Cons i ids)
  from Cons.prems have "d i \<noteq> None" by auto
  moreover have "docstore_pop_all ids (d(i := None)) = (None, (d(i := None)) |` (- set ids))"
    using Cons.prems by (intro Cons.IH) auto
  moreover have "(d(i := None)) |` (- set ids) = d |` (- set (i # ids))"
    by (auto simp: restrict_map_def fun_eq_iff)
  ultimately show ?case by simp
qed

lemma reversed_index_distinct:
  assumes "distinct ids" "k < length ids"
  shows "reversed_index ids (ids ! k) = Some k"
proof -
  have d: "distinct (map fst (map (\<lambda>p. (snd p, fst p)) (enumerate 0 ids)))"
    using assms(1) by (simp add: comp_def)
  have "(k, ids ! k) \<in> set (enumerate 0 ids)"
    using assms(2) by (simp add: in_set_enumerate_eq)
  then have "(ids ! k, k) \<in> set (map (\<lambda>p. (snd p, fst p)) (enumerate 0 ids))"
    by force
  then have "map_of (map (\<lambda>p. (snd p, fst p)) (enumerate 0 ids)) (ids ! k) = Some k"
    using d by (intro map_of_is_SomeI)
  then show ?thesis
    unfolding reversed_index_def using d by (simp add: map_of_rev_distinct)
qed

lemma index_to_delete_set:
  assumes "distinct all_ids" "set ids \<subseteq> set all_ids"
  shows "set (List.map_filter (reversed_index all_ids) ids) =
         {k. k < length all_ids \<and> all_ids ! k \<in> set ids}"
proof (intro set_eqI iffI)
  fix k assume "k \<in> set (List.map_filter (reversed_index all_ids) ids)"
  then obtain i where i: "i \<in> set ids" "reversed_index all_ids i = Some k"
    by (auto simp: map_filter_def)
  from i(1) assms(2) obtain j where j: "j < length all_ids" "all_ids ! j = i"
    by (metis in_set_conv_nth subsetD)
  with reversed_index_distinct [OF assms(1) j(1)] i show "k \<in> {k. k < length all_ids \<and> all_ids ! k \<in> set ids}"
    by simp
next
  fix k assume "k \<in> {k. k < length all_ids \<and> all_ids ! k \<in> set ids}"
  then have k: "k < length all_ids" "all_ids ! k \<in> set ids" by simp_all
  from reversed_index_distinct [OF assms(1) k(1)] k(2)
  show "k \<in> set (List.map_filter (reversed_index all_ids) ids)"
    by (force simp: map_filter_def)
qed

lemma remove_ids_filter:
  assumes "set dels = {k. k < length xs \<and> xs ! k \<in> A}"
  shows "remove_ids dels xs = filter (\<lambda>x. x \<notin> A) xs"
proof -
  have same: "filter (\<lambda>p. fst p \<notin> set dels) (enumerate 0 xs) =
        filter ((\<lambda>x. x \<notin> A) \<circ> snd) (enumerate 0 xs)"
    by (rule filter_cong) (auto simp: assms in_set_enumerate_eq)
  have "filter (\<lambda>x. x \<notin> A) xs = filter (\<lambda>x. x \<notin> A) (map snd (enumerate 0 xs))"
    by simp
  also have "\<dots> = map snd (filter ((\<lambda>x. x \<notin> A) \<circ> snd) (enumerate 0 xs))"
    by (rule filter_map)
  finally show ?thesis
    unfolding remove_ids_def same by simp
qed

lemma faiss_delete_ok:
  assumes "ids \<noteq> []" "distinct ids" "set ids \<subseteq> set (index_to_docstore_id vs)"
    "distinct (index_to_docstore_id vs)" "set (index_to_docstore_id vs) \<subseteq> dom (docstore vs)"
  shows "faiss_delete ids vs =
    (None, \<lparr>index = remove_ids (List.map_filter (reversed_index (index_to_docstore_id vs)) ids) (index vs),
            docstore = docstore vs |` (- set ids),
            index_to_docstore_id = filter (\<lambda>i. i \<notin> set ids) (index_to_docstore_id vs)\<rparr>)"
proof -
  have in_dom: "set ids \<subseteq> dom (docstore vs)" using assms(3,5) by blast
  have some: "\<exists>i \<in> set ids. docstore vs i \<noteq> None"
    using assms(1) in_dom by (cases ids) auto
  have pop: "docstore_delete ids (docstore vs) = (None, docstore vs |` (- set ids))"
    using some docstore_pop_all_ok [OF assms(2) in_dom] by (simp add: docstore_delete_def)
  have rem: "remove_ids (List.map_filter (reversed_index (index_to_docstore_id vs)) ids)
               (index_to_docstore_id vs) = filter (\<lambda>i. i \<notin> set ids) (index_to_docstore_id vs)"
    by (rule remove_ids_filter) (rule index_to_delete_set [OF assms(4,3)])
  show ?thesis
    using assms(3) pop rem by (simp add: faiss_delete_def Let_def)
qed

subsection \<open>The created and the cleared store\<close>

lemma clear_vector_store: "vector_store (clear s) = empty_faiss"
  by (simp add: clear_def save_def empty_faiss_def)

lemma created_vector_store:
  "vector_store (load_or_create_vector_store emb uuid4 Absent n) =
     \<lparr>index = [emb init_text],
      docstore = [uuid4 n \<mapsto> \<lparr>page_content = init_text, metadata = []\<rparr>],
      index_to_docstore_id = [uuid4 n]\<rparr>"
  by (simp add: load_or_create_vector_store_def FAISS_from_texts_def faiss_add_documents_def
      docstore_add_def empty_faiss_def Let_def)

lemma three_docs_ids:
  "index_to_docstore_id
     (vector_store (snd (add_documents length_emb unary_uuid4 [doc_a, doc_b, doc_a] 2 None fresh_store)))
   = [''u'', ''a.txt_uu'', ''b.txt_uuu'', ''a.txt_uuuu'']"
  by (simp add: eval_store)

subsection \<open>\<open>clear\<close> and the placeholder entry\<close>

text \<open>
  C1, as amended. After \<open>clear()\<close> the index holds no entry at all, not even the
  placeholder; the id dictionary and the docstore are empty, and exactly that state is
  saved. A first \<open>_load_or_create_vector_store()\<close> on an empty directory instead leaves
  one placeholder entry (and saves it). The two states differ by that entry, and they
  keep differing after the same successful \<open>add_documents\<close> call: the cleared store holds
  exactly the added entries, the created one the placeholder followed by them.
\<close>

theorem clear_leaves_no_sentinel:
  "vector_store (clear s) = \<lparr>index = [], docstore = Map.empty, index_to_docstore_id = []\<rparr>
   \<and> FAISS_INDEX_PATH (clear s) = Stored (vector_store (clear s))
   \<and> vector_store (load_or_create_vector_store emb uuid4 Absent n) =
       \<lparr>index = [emb init_text],
        docstore = [uuid4 n \<mapsto> \<lparr>page_content = init_text, metadata = []\<rparr>],
        index_to_docstore_id = [uuid4 n]\<rparr>
   \<and> FAISS_INDEX_PATH (load_or_create_vector_store emb uuid4 Absent n) =
       Stored (vector_store (load_or_create_vector_store emb uuid4 Absent n))
   \<and> (documents \<noteq> [] \<and> 0 < batch_size \<and> length documents = length ids \<and> distinct ids
        \<and> uuid4 n \<notin> set ids \<longrightarrow>
       fst (add_documents emb uuid4 documents batch_size (Some ids) (clear s)) = Inr True
       \<and> index_to_docstore_id
            (vector_store (snd (add_documents emb uuid4 documents batch_size (Some ids) (clear s))))
           = ids
       \<and> index (vector_store (snd (add_documents emb uuid4 documents batch_size (Some ids) (clear s))))
           = map (\<lambda>doc. emb (page_content doc)) documents
       \<and> fst (add_documents emb uuid4 documents batch_size (Some ids)
                (load_or_create_vector_store emb uuid4 Absent n)) = Inr True
       \<and> index_to_docstore_id
            (vector_store (snd (add_documents emb uuid4 documents batch_size (Some ids)
                (load_or_create_vector_store emb uuid4 Absent n))))
           = uuid4 n # ids
       \<and> index (vector_store (snd (add_documents emb uuid4 documents batch_size (Some ids)
                (load_or_create_vector_store emb uuid4 Absent n))))
           = emb init_text # map (\<lambda>doc. emb (page_content doc)) documents)"
proof -
  have a: "vector_store (clear s) = \<lparr>index = [], docstore = Map.empty, index_to_docstore_id = []\<rparr>"
    using clear_vector_store [of s] by (simp add: empty_faiss_def)
  have b: "FAISS_INDEX_PATH (clear s) = Stored (vector_store (clear s))"
    by (simp add: clear_def save_def)
  have d: "FAISS_INDEX_PATH (load_or_create_vector_store emb uuid4 Absent n) =
       Stored (vector_store (load_or_create_vector_store emb uuid4 Absent n))"
    by (simp add: load_or_create_vector_store_def Let_def)
  have e: "documents \<noteq> [] \<and> 0 < batch_size \<and> length documents = length ids \<and> distinct ids
        \<and> uuid4 n \<notin> set ids \<longrightarrow>
       fst (add_documents emb uuid4 documents batch_size (Some ids) (clear s)) = Inr True
       \<and> index_to_docstore_id
            (vector_store (snd (add_documents emb uuid4 documents batch_size (Some ids) (clear s))))
           = ids
       \<and> index (vector_store (snd (add_documents emb uuid4 documents batch_size (Some ids) (clear s))))
           = map (\<lambda>doc. emb (page_content doc)) documents
       \<and> fst (add_documents emb uuid4 documents batch_size (Some ids)
                (load_or_create_vector_store emb uuid4 Absent n)) = Inr True
       \<and> index_to_docstore_id
            (vector_store (snd (add_documents emb uuid4 documents batch_size (Some ids)
                (load_or_create_vector_store emb uuid4 Absent n))))
           = uuid4 n # ids
       \<and> index (vector_store (snd (add_documents emb uuid4 documents batch_size (Some ids)
                (load_or_create_vector_store emb uuid4 Absent n))))
           = emb init_text # map (\<lambda>doc. emb (page_content doc)) documents"
  proof (intro impI, elim conjE)
    assume h: "documents \<noteq> []" "0 < batch_size" "length documents = length ids" "distinct ids"
      "uuid4 n \<notin> set ids"
    have c1: "set ids \<inter> dom (docstore (vector_store (clear s))) = {}"
      by (simp add: a)
    have c2: "set ids \<inter> dom (docstore (vector_store
                (load_or_create_vector_store emb uuid4 Absent n))) = {}"
      using h(5) by (simp add: created_vector_store)
    show "fst (add_documents emb uuid4 documents batch_size (Some ids) (clear s)) = Inr True
       \<and> index_to_docstore_id
            (vector_store (snd (add_documents emb uuid4 documents batch_size (Some ids) (clear s))))
           = ids
       \<and> index (vector_store (snd (add_documents emb uuid4 documents batch_size (Some ids) (clear s))))
           = map (\<lambda>doc. emb (page_content doc)) documents
       \<and> fst (add_documents emb uuid4 documents batch_size (Some ids)
                (load_or_create_vector_store emb uuid4 Absent n)) = Inr True
       \<and> index_to_docstore_id
            (vector_store (snd (add_documents emb uuid4 documents batch_size (Some ids)
                (load_or_create_vector_store emb uuid4 Absent n))))
           = uuid4 n # ids
       \<and> index (vector_store (snd (add_documents emb uuid4 documents batch_size (Some ids)
                (load_or_create_vector_store emb uuid4 Absent n))))
           = emb init_text # map (\<lambda>doc. emb (page_content doc)) documents"
      unfolding add_documents_given_ids_ok [OF h(1,2,3,4) c1]
        add_documents_given_ids_ok [OF h(1,2,3,4) c2]
      by (simp add: save_def a created_vector_store)
  qed
  show ?thesis
    using a b created_vector_store [of emb uuid4 n] d e by blast
qed

theorem clear_leaves_no_sentinel_witness:
  "([doc_a] \<noteq> [] \<and> 0 < (10::nat) \<and> length [doc_a] = length [''a.txt_1''] \<and> distinct [''a.txt_1'']
    \<and> unary_uuid4 0 \<notin> set [''a.txt_1''])
   \<and> index_to_docstore_id
        (vector_store (snd (add_documents length_emb unary_uuid4 [doc_a] 10 (Some [''a.txt_1''])
           (clear fresh_store)))) = [''a.txt_1'']
   \<and> index_to_docstore_id
        (vector_store (snd (add_documents length_emb unary_uuid4 [doc_a] 10 (Some [''a.txt_1''])
           (load_or_create_vector_store length_emb unary_uuid4 Absent 0)))) = [''u'', ''a.txt_1'']"
proof -
  have h: "[doc_a] \<noteq> [] \<and> 0 < (10::nat) \<and> length [doc_a] = length [''a.txt_1'']
      \<and> distinct [''a.txt_1''] \<and> unary_uuid4 0 \<notin> set [''a.txt_1'']"
    by (simp add: unary_uuid4_def)
  have u: "unary_uuid4 0 = ''u''"
    by (simp add: unary_uuid4_def)
  show ?thesis
    using h u clear_leaves_no_sentinel [where s = fresh_store and emb = length_emb
        and ?uuid4.0 = unary_uuid4 and n = 0 and documents = "[doc_a]" and batch_size = 10
        and ids = "[''a.txt_1'']"]
    by simp
qed

text \<open>
  The claim as stated (the cleared store is in the state of a first
  \<open>_load_or_create_vector_store()\<close>, with exactly one placeholder entry, and a later add
  cannot tell them apart) fails: created, the id dictionary is \<open>[u]\<close>; cleared, it is
  empty; after adding the same chunk the two hold different ids.
\<close>

theorem clear_differs_from_created:
  "index_to_docstore_id (vector_store fresh_store) = [''u'']
   \<and> index_to_docstore_id (vector_store (clear fresh_store)) = []
   \<and> index_to_docstore_id
        (vector_store (snd (add_documents length_emb unary_uuid4 [doc_a] 10 None fresh_store)))
       = [''u'', ''a.txt_uu'']
   \<and> index_to_docstore_id
        (vector_store (snd (add_documents length_emb unary_uuid4 [doc_a] 10 None (clear fresh_store))))
       = [''a.txt_uu'']"
  by (simp add: eval_store)

subsection \<open>\<open>delete_by_source\<close>\<close>

text \<open>
  C6, as amended. For every non-empty \<open>doc_id\<close>, on a store whose id dictionary holds
  pairwise different ids that all have a docstore entry: \<open>delete_by_source\<close> removes
  exactly the ids that start with \<open>doc_id_\<close> from the id dictionary and the docstore, so
  that none of the remaining ids starts with it; it returns \<open>True\<close> and has saved the
  store when some id matched, and returns \<open>False\<close> with nothing changed when none did.
\<close>

theorem delete_by_source_removes_prefixed:
  assumes "doc_id \<noteq> []"
    and "distinct (index_to_docstore_id (vector_store s))"
    and "set (index_to_docstore_id (vector_store s)) \<subseteq> dom (docstore (vector_store s))"
  shows "index_to_docstore_id (vector_store (snd (delete_by_source doc_id s))) =
           filter (\<lambda>i. \<not> startswith i (doc_id @ ''_'')) (index_to_docstore_id (vector_store s))
     \<and> docstore (vector_store (snd (delete_by_source doc_id s))) =
           docstore (vector_store s)
             |` (- {i \<in> set (index_to_docstore_id (vector_store s)). startswith i (doc_id @ ''_'')})
     \<and> (\<forall>i \<in> set (index_to_docstore_id (vector_store (snd (delete_by_source doc_id s)))).
           \<not> startswith i (doc_id @ ''_''))
     \<and> (fst (delete_by_source doc_id s) \<longleftrightarrow>
           (\<exists>i \<in> set (index_to_docstore_id (vector_store s)). startswith i (doc_id @ ''_'')))
     \<and> (fst (delete_by_source doc_id s) \<longrightarrow>
           FAISS_INDEX_PATH (snd (delete_by_source doc_id s)) =
             Stored (vector_store (snd (delete_by_source doc_id s))))
     \<and> (\<not> fst (delete_by_source doc_id s) \<longrightarrow> snd (delete_by_source doc_id s) = s)"
proof -
  let ?all = "index_to_docstore_id (vector_store s)"
  let ?del = "filter (\<lambda>i. startswith i (doc_id @ ''_'')) ?all"
  show ?thesis
  proof (cases "?del = []")
    case True
    then have none: "\<forall>i \<in> set ?all. \<not> startswith i (doc_id @ ''_'')"
      by (simp add: filter_empty_conv)
    have res: "delete_by_source doc_id s = (False, s)"
      using assms(1) True by (simp add: delete_by_source_def)
    have keep: "filter (\<lambda>i. \<not> startswith i (doc_id @ ''_'')) ?all = ?all"
      using none by simp
    have empty: "{i \<in> set ?all. startswith i (doc_id @ ''_'')} = {}"
      using none by blast
    have same: "docstore (vector_store s) |` (- {i \<in> set ?all. startswith i (doc_id @ ''_'')})
        = docstore (vector_store s)"
      unfolding empty by (simp add: restrict_map_def)
    show ?thesis
      unfolding res same using none keep by simp
  next
    case False
    have del: "faiss_delete ?del (vector_store s) =
      (None, \<lparr>index = remove_ids (List.map_filter (reversed_index ?all) ?del) (index (vector_store s)),
              docstore = docstore (vector_store s) |` (- set ?del),
              index_to_docstore_id = filter (\<lambda>i. i \<notin> set ?del) ?all\<rparr>)"
      using False assms(2,3) by (intro faiss_delete_ok) simp_all
    have res: "delete_by_source doc_id s =
      (True, save (s\<lparr>vector_store :=
         \<lparr>index = remove_ids (List.map_filter (reversed_index ?all) ?del) (index (vector_store s)),
          docstore = docstore (vector_store s) |` (- set ?del),
          index_to_docstore_id = filter (\<lambda>i. i \<notin> set ?del) ?all\<rparr>\<rparr>))"
      using assms(1) False del by (simp add: delete_by_source_def)
    have flt: "filter (\<lambda>i. i \<notin> set ?del) ?all = filter (\<lambda>i. \<not> startswith i (doc_id @ ''_'')) ?all"
      by (rule filter_cong) auto
    have some: "\<exists>i \<in> set ?all. startswith i (doc_id @ ''_'')"
      using False by (simp add: filter_empty_conv)
    have sets: "set ?del = {i \<in> set ?all. startswith i (doc_id @ ''_'')}"
      by auto
    show ?thesis
      unfolding res sets [symmetric] using flt some by (simp add: save_def)
  qed
qed

theorem delete_by_source_removes_prefixed_witness:
  "''a.txt'' \<noteq> []
   \<and> index_to_docstore_id
        (vector_store (snd (add_documents length_emb unary_uuid4 [doc_a, doc_b, doc_a] 2 None fresh_store)))
       = [''u'', ''a.txt_uu'', ''b.txt_uuu'', ''a.txt_uuuu'']
   \<and> fst (delete_by_source ''a.txt''
        (snd (add_documents length_emb unary_uuid4 [doc_a, doc_b, doc_a] 2 None fresh_store)))
   \<and> index_to_docstore_id (vector_store (snd (delete_by_source ''a.txt''
        (snd (add_documents length_emb unary_uuid4 [doc_a, doc_b, doc_a] 2 None fresh_store)))))
       = [''u'', ''b.txt_uuu'']"
proof -
  let ?s = "snd (add_documents length_emb unary_uuid4 [doc_a, doc_b, doc_a] 2 None fresh_store)"
  have ids: "index_to_docstore_id (vector_store ?s) = [''u'', ''a.txt_uu'', ''b.txt_uuu'', ''a.txt_uuuu'']"
    by (rule three_docs_ids)
  have h1: "''a.txt'' \<noteq> []" by simp
  have h2: "distinct (index_to_docstore_id (vector_store ?s))"
    unfolding ids by simp
  have h3: "set (index_to_docstore_id (vector_store ?s)) \<subseteq> dom (docstore (vector_store ?s))"
    unfolding ids by (simp add: eval_store)
  show ?thesis
    using delete_by_source_removes_prefixed [OF h1 h2 h3] ids by simp
qed

text \<open>
  The claim as stated, for every source id, fails at the empty one: the method returns
  \<open>False\<close> before it looks at the ids, and an id such as \<open>_uu\<close> (a chunk without
  \<open>file_name\<close> metadata) stays although it starts with \<open>"" + "_"\<close>.
\<close>

theorem delete_by_empty_source_keeps_prefixed:
  "startswith ''_uu'' ([] @ ''_'')
   \<and> index_to_docstore_id
        (vector_store (snd (add_documents length_emb unary_uuid4 [doc_unnamed] 10 None fresh_store)))
       = [''u'', ''_uu'']
   \<and> \<not> fst (delete_by_source []
              (snd (add_documents length_emb unary_uuid4 [doc_unnamed] 10 None fresh_store)))
   \<and> index_to_docstore_id
        (vector_store (snd (delete_by_source []
              (snd (add_documents length_emb unary_uuid4 [doc_unnamed] 10 None fresh_store)))))
       = [''u'', ''_uu'']"
  by (simp add: eval_store)


section \<open>Properties of the conversation memory\<close>

subsection \<open>Failures inside a stage\<close>



text \<open>
  Only on a state that is an object with a \<open>messages\<close> attribute, which the agent never
  passes, does the retrieval stage reach \<open>similarity_search\<close>; it calls it outside any
  \<open>try\<close>.
\<close>

lemma retrieval_failure_on_object_state:
  "retrieve_similar_history_middleware no_rank down_chroma hi_state \<lparr>kwargs = []\<rparr> = Inl StoreError
   \<and> save_user_messages_middleware plain_md5 ''2025-01-01T00:00:00'' down_chroma hi_state
       = (hi_state, down_chroma)"
  by (simp add: retrieve_similar_history_middleware_def similarity_search_def hi_state_def
      down_chroma_def save_user_messages_middleware_def persist_def add_texts_def strip_def
      is_space_def Let_def)

subsection \<open>The sanitizer\<close>

text \<open>
  C5. The claim: on a history that ends in an assistant turn with pending tool calls,
  the sanitizer yields the history without that turn. The code on the state of a run
  that stopped after the model asked for a tool, as the agent passes it (a
  dictionary): \<open>getattr(state, "messages", [])\<close> finds no attribute and gives the empty
  list, the middleware returns at once, and the history still ends in the pending tool
  call. The branch written for a dictionary state is never reached.
\<close>

theorem sanitizer_keeps_dangling_call_on_dict:
  "dangling_tool_call (carried_messages crashed_dict)
   \<and> sanitize_dangling_tool_middleware crashed_dict = crashed_dict
   \<and> carried_messages (sanitize_dangling_tool_middleware crashed_dict)
       = [HumanMessage (Text ''what is in manual.pdf?''), AIMessage (Text []) [''call_1'']]"
  by (simp add: crashed_dict_def dangling_tool_call_def sanitize_dangling_tool_middleware_def)

text \<open>
  On an object with a \<open>messages\<close> attribute the sanitizer does drop the last message,
  and nothing else.
\<close>

lemma sanitize_on_object_state:
  "(dangling_tool_call (getattr_messages st) \<longrightarrow>
      getattr_messages (sanitize_dangling_tool_middleware st) = butlast (getattr_messages st)
      \<and> Suc (length (getattr_messages (sanitize_dangling_tool_middleware st)))
          = length (getattr_messages st))
   \<and> (\<not> dangling_tool_call (getattr_messages st) \<longrightarrow>
      sanitize_dangling_tool_middleware st = st)"
proof (cases st)
  case (StateObject a)
  then show ?thesis
    by (cases "messages a")
       (auto simp: sanitize_dangling_tool_middleware_def dangling_tool_call_def Let_def)
next
  case (StateDict a)
  then show ?thesis
    by (simp add: sanitize_dangling_tool_middleware_def dangling_tool_call_def)
qed

subsection \<open>Deduplication by content hash\<close>

text \<open>
  The \<open>try\<close> block itself deduplicates: written any number of times, a role and content
  have one entry, under their id.
\<close>

lemma persist_available:
  "available ch \<Longrightarrow>
   persist md5 role_str content_str now ch =
     ch\<lparr>collection := (collection ch)(generate_msg_id md5 content_str role_str \<mapsto>
          \<lparr>page_content = content_str,
           metadata = [(''role'', role_str), (''timestamp'', now)]\<rparr>)\<rparr>"
  by (simp add: persist_def add_texts_def)

lemma fold_persist:
  "available ch \<Longrightarrow> nows \<noteq> [] \<Longrightarrow>
   fold (persist md5 role_str content_str) nows ch =
     ch\<lparr>collection := (collection ch)(generate_msg_id md5 content_str role_str \<mapsto>
          \<lparr>page_content = content_str,
           metadata = [(''role'', role_str), (''timestamp'', last nows)]\<rparr>)\<rparr>"
proof (induction nows arbitrary: ch)
  case Nil
  then show ?case by simp
next
  case (Cons now nows)
  let ?ch1 = "persist md5 role_str content_str now ch"
  have step: "?ch1 = ch\<lparr>collection := (collection ch)(generate_msg_id md5 content_str role_str \<mapsto>
          \<lparr>page_content = content_str,
           metadata = [(''role'', role_str), (''timestamp'', now)]\<rparr>)\<rparr>"
    by (rule persist_available [OF Cons.prems(1)])
  show ?case
  proof (cases "nows = []")
    case True
    then have "fold (persist md5 role_str content_str) (now # nows) ch = ?ch1"
      and "last (now # nows) = now"
      by simp_all
    then show ?thesis
      using step by metis
  next
    case False
    have av: "available ?ch1"
      unfolding step using Cons.prems(1) by simp
    have "fold (persist md5 role_str content_str) (now # nows) ch =
          fold (persist md5 role_str content_str) nows ?ch1"
      by simp
    also have "\<dots> = ?ch1\<lparr>collection := (collection ?ch1)(generate_msg_id md5 content_str role_str \<mapsto>
          \<lparr>page_content = content_str,
           metadata = [(''role'', role_str), (''timestamp'', last nows)]\<rparr>)\<rparr>"
      by (rule Cons.IH [OF av False])
    also have "\<dots> = ch\<lparr>collection := (collection ch)(generate_msg_id md5 content_str role_str \<mapsto>
          \<lparr>page_content = content_str,
           metadata = [(''role'', role_str), (''timestamp'', last (now # nows))]\<rparr>)\<rparr>"
      unfolding step using False by simp
    finally show ?thesis .
  qed
qed

lemma strip_nonempty: "strip c \<noteq> [] \<Longrightarrow> c \<noteq> []"
  by (auto simp: strip_def)

lemma save_user_messages_persists:
  assumes "getattr_messages st = ms @ [HumanMessage (Text c)]" and "strip c \<noteq> []"
  shows "save_user_messages_middleware md5 now ch st = (st, persist md5 ''user'' c now ch)"
  using assms strip_nonempty [OF assms(2)]
  by (simp add: save_user_messages_middleware_def Let_def)

lemma save_assistant_response_persists:
  assumes "getattr_response st = Some (AIMessage (Text c) [])" and "strip c \<noteq> []"
  shows "save_assistant_response_middleware md5 now ch st =
           (st, persist md5 ''assistant'' c now ch)"
  using assms strip_nonempty [OF assms(2)]
  by (simp add: save_assistant_response_middleware_def Let_def)

lemma persist_n_times:
  assumes "1 \<le> N" and "length nows = N" and "available ch"
  shows "collection (fold (persist md5 role_str content_str) nows ch) =
           (collection ch)(generate_msg_id md5 content_str role_str \<mapsto>
              \<lparr>page_content = content_str,
               metadata = [(''role'', role_str), (''timestamp'', last nows)]\<rparr>)
     \<and> dom (collection (fold (persist md5 role_str content_str) nows ch)) =
           insert (generate_msg_id md5 content_str role_str) (dom (collection ch))
     \<and> card (dom (collection (fold (persist md5 role_str content_str) nows
                (ch\<lparr>collection := Map.empty\<rparr>)))) = 1"
proof -
  from assms(1,2) have ne: "nows \<noteq> []" by auto
  have av: "available (ch\<lparr>collection := Map.empty\<rparr>)" using assms(3) by simp
  show ?thesis
    by (simp add: fold_persist [OF assms(3) ne] fold_persist [OF av ne])
qed

text \<open>
  C7. The claim: persisting a role and content \<open>N \<ge> 1\<close> times yields exactly one stored
  entry. The code on the states the agent passes (dictionaries), with a collection
  whose calls succeed: \<open>save_user_messages_middleware\<close> reads the messages with
  \<open>getattr\<close>, finds none and returns; \<open>save_assistant_response_middleware\<close> finds no
  \<open>response\<close> attribute and returns. Run once or three times for the user message
  \<open>hello\<close> or the answer \<open>hi there\<close>, they leave the collection empty, where the \<open>try\<close>
  block they never reach would have left the one entry \<open>user:hello\<close>.
\<close>

theorem save_middlewares_store_nothing_on_dict:
  "save_user_messages_middleware plain_md5 ''t1'' up_chroma hello_dict = (hello_dict, up_chroma)
   \<and> fold (\<lambda>now ch. snd (save_user_messages_middleware plain_md5 now ch hello_dict))
        [''t1'', ''t2'', ''t3''] up_chroma = up_chroma
   \<and> fold (\<lambda>now ch. snd (save_assistant_response_middleware plain_md5 now ch answered_dict))
        [''t1'', ''t2'', ''t3''] up_chroma = up_chroma
   \<and> collection up_chroma ''user:hello'' = None
   \<and> collection (fold (persist plain_md5 ''user'' ''hello'') [''t1'', ''t2'', ''t3''] up_chroma)
        ''user:hello''
       = Some \<lparr>page_content = ''hello'', metadata = [(''role'', ''user''), (''timestamp'', ''t3'')]\<rparr>"
  by (simp add: save_user_messages_middleware_def save_assistant_response_middleware_def
      hello_dict_def answered_dict_def up_chroma_def persist_def add_texts_def generate_msg_id_def
      plain_md5_def)


section \<open>Properties of the conversation session\<close>

subsection \<open>Order of the stages\<close>

text \<open>
  C8, as amended. Around every model call the agent runs, in this order: the dangling
  tool-call sanitizer, the summarization gate, history retrieval and injection,
  user-message persistence, then the model call, then assistant-response persistence.
  The sanitizer runs before all others; the summarization gate runs before retrieval
  and before user-message persistence.
\<close>

theorem turn_steps_of_agent:
  "turn_steps agent_middleware =
     [Run Sanitize_dangling_tool,
      Run (Summarization 4000 20),
      Run Retrieve_similar_history,
      Run Save_user_messages,
      Model_call,
      Run Save_assistant_response]"
  by (simp add: turn_steps_def agent_middleware_def)

text \<open>
  The claim as stated (the summarization gate runs after user-message persistence)
  fails: the gate is the second step of a turn, user-message persistence the fourth.
\<close>

theorem summarization_before_user_persistence:
  "position (Run (Summarization 4000 20)) (turn_steps agent_middleware) = Some 1
   \<and> position (Run Save_user_messages) (turn_steps agent_middleware) = Some 3"
  by (simp add: turn_steps_def agent_middleware_def)

subsection \<open>The checkpoint store across a restart\<close>

text \<open>
  C2, as amended. A session's checkpoint store keeps what was last written only while
  the session object stays cached in the running process: \<open>get_conversational_chain\<close>
  leaves the directory alone for a cached session id, and for any other it creates the
  session object, which deletes every file of the short-term-memory directory and
  opens an empty database, so that no thread of any session has a checkpoint left.
\<close>

theorem new_chain_object_empties_checkpoints:
  "snd (get_conversational_chain session_id (sessions, dir)) =
     (if session_id \<in> set sessions then dir else chain_init session_id dir)
   \<and> get_checkpoint (chain_init session_id dir) other_session thread_id = None"
  by (simp add: get_conversational_chain_def chain_init_def get_checkpoint_def)

text \<open>
  The claim as stated (the store can be reopened after a process restart with the
  state as last written) fails: with one thread stored for \<open>session_123\<close>, the first
  \<open>get_conversational_chain\<close> of a new process, whose cache is empty, leaves no checkpoint
  for that thread.
\<close>

theorem checkpoint_lost_after_restart:
  "get_checkpoint stored_dir ''session_123'' ''thread_1'' = Some [HumanMessage (Text ''hi'')]
   \<and> get_checkpoint (snd (get_conversational_chain ''session_123'' ([], stored_dir)))
        ''session_123'' ''thread_1'' = None"
  by (simp add: get_conversational_chain_def chain_init_def get_checkpoint_def stored_dir_def)

end
